theory Spec2Isabelle
  imports Main
begin

section \<open>The output handler of telegram-logger\<close>

text \<open>
  A shallow embedding of \<^verbatim>\<open>src/telegram_logger/handlers/output_handler.py\<close>
  (class \<^verbatim>\<open>OutputHandler\<close>): the forwarding and deletion filters, the retrying
  database lookup, the deletion rate limiter, the formatter and the media delivery
  with its fallbacks, and the dispatcher \<^verbatim>\<open>process\<close>.

  Conventions of the embedding.
  \<^item> A Python \<^verbatim>\<open>str\<close> is a list of code points (\<open>ustr\<close>), so that \<open>length\<close> is
    Python's \<^verbatim>\<open>len\<close>. The literals of the source are given as code points; the
    comment at each one shows the literal with its non-ASCII characters escaped.
  \<^item> A \<^verbatim>\<open>datetime\<close> and a \<^verbatim>\<open>timedelta\<close> are integers counting microseconds.
  \<^item> An exception is a value of \<open>exn\<close>; a function that may raise returns
    \<open>exn + 'a\<close>, with \<open>Inl\<close> the exception. Only subclasses of \<^verbatim>\<open>Exception\<close> are
    modelled (what \<^verbatim>\<open>except Exception\<close> catches); task cancellation and interpreter
    exit are outside the embedding.
  \<^item> Everything the handler calls but does not define (the database, the log sender,
    the client, \<^verbatim>\<open>create_mention\<close>, \<^verbatim>\<open>retrieve_media_as_file\<close>, the restricted
    media handler, the clock, \<^verbatim>\<open>BaseHandler._get_sender_id\<close>) is a field of the
    record \<open>world\<close>. Each effectful call is answered as a function of the history of
    all calls made so far (the \<open>trace\<close>), and is appended to that trace together with
    its answer. A theorem that quantifies over the world therefore covers every
    behaviour of the collaborators, including failures and answers that change
    between two calls.
  \<^item> Events, messages and media are Telethon's objects. Three facts about its classes
    decide what the handler does and are part of the embedding:
    \<^verbatim>\<open>MessageEdited.Event\<close> is a subclass of \<^verbatim>\<open>NewMessage.Event\<close>;
    \<^verbatim>\<open>MessageDeleted.Event\<close> has no attribute \<^verbatim>\<open>peer\<close>; and the attributes of a
    file, the sticker attribute among them, are on the document of a
    \<^verbatim>\<open>MessageMediaDocument\<close>, not on the media object.
\<close>

subsection \<open>Strings and exceptions\<close>

type_synonym ustr = "nat list"

type_synonym time = int

datatype exn =
    FileNotFoundError ustr
  | AttributeError ustr
  | TypeError ustr
  | OtherException ustr ustr

text \<open>\<^verbatim>\<open>type(e).__name__\<close> and \<^verbatim>\<open>str(e)\<close> of an exception.\<close>

fun exn_type_name :: "exn \<Rightarrow> ustr" where
  "exn_type_name (FileNotFoundError m) =
     [70, 105, 108, 101, 78, 111, 116, 70, 111, 117, 110, 100, 69, 114, 114, 111, 114]"
| "exn_type_name (AttributeError m) =
     [65, 116, 116, 114, 105, 98, 117, 116, 101, 69, 114, 114, 111, 114]"
| "exn_type_name (TypeError m) = [84, 121, 112, 101, 69, 114, 114, 111, 114]"
| "exn_type_name (OtherException n m) = n"

fun exn_message :: "exn \<Rightarrow> ustr" where
  "exn_message (FileNotFoundError m) = m"
| "exn_message (AttributeError m) = m"
| "exn_message (TypeError m) = m"
| "exn_message (OtherException n m) = m"

text \<open>\<^verbatim>\<open>str(n)\<close> for an integer: its decimal digits, with a leading minus sign.\<close>

fun str_nat :: "nat \<Rightarrow> ustr" where
  "str_nat n = (if n < 10 then [48 + n] else str_nat (n div 10) @ [48 + n mod 10])"

declare str_nat.simps [simp del]

definition str_int :: "int \<Rightarrow> ustr" where
  "str_int i = (if i < 0 then 45 # str_nat (nat (- i)) else str_nat (nat i))"

text \<open>\<^verbatim>\<open>s.replace(c, r)\<close> for a one-character pattern \<open>c\<close>.\<close>

fun replace_char :: "nat \<Rightarrow> ustr \<Rightarrow> ustr \<Rightarrow> ustr" where
  "replace_char c r [] = []"
| "replace_char c r (x # xs) = (if x = c then r @ replace_char c r xs else x # replace_char c r xs)"

text \<open>Truthiness of an optional integer and of an optional string: \<^verbatim>\<open>None\<close>, \<^verbatim>\<open>0\<close> and
  the empty string are false.\<close>

fun truthy_int :: "int option \<Rightarrow> bool" where
  "truthy_int None = False"
| "truthy_int (Some i) = (i \<noteq> 0)"

fun truthy_str :: "ustr option \<Rightarrow> bool" where
  "truthy_str None = False"
| "truthy_str (Some s) = (s \<noteq> [])"

subsection \<open>Messages and events\<close>

datatype attribute =
    DocumentAttributeFilename ustr
  | DocumentAttributeSticker
  | OtherAttribute

text \<open>The media object of a live message: its class name, its own
  \<^verbatim>\<open>attributes\<close> when the object has that attribute at all, and the attributes of the
  document it wraps, when it wraps one. The handler reads only the first two. Telethon
  delivers a sticker, like every file, as a \<^verbatim>\<open>MessageMediaDocument\<close>: that class has no
  attribute \<^verbatim>\<open>attributes\<close>, the list lives on its \<^verbatim>\<open>document\<close>.\<close>

record media =
  media_class_name :: ustr
  media_attributes :: "attribute list option"
  media_document_attributes :: "attribute list option"

text \<open>A live Telethon message, with the attributes the handler reads.\<close>

record tl_message =
  tl_id :: int
  tl_chat_id :: "int option"
  tl_text :: "ustr option"
  tl_date :: "time option"
  tl_edit_date :: "time option"
  tl_reply_to_msg_id :: "int option"
  tl_is_private :: bool
  tl_is_group :: bool
  tl_out :: bool
  tl_media :: "media option"
  tl_noforwards :: bool

text \<open>A stored message (\<^verbatim>\<open>data.models.Message\<close>), with the attributes the handler reads.\<close>

record db_message =
  db_id :: int
  db_chat_id :: "int option"
  db_from_id :: int
  db_text :: "ustr option"
  db_date :: "time option"
  db_edit_date :: "time option"
  db_reply_to_msg_id :: "int option"
  db_is_private :: bool
  db_media_type :: "ustr option"
  db_media_path :: "ustr option"
  db_is_restricted :: bool

datatype peer = PeerUser int | PeerChat int | PeerChannel int

text \<open>What reading \<^verbatim>\<open>event.peer\<close> finds on a deletion event. Telethon's
  \<^verbatim>\<open>MessageDeleted.Event\<close> keeps its peer in \<^verbatim>\<open>_chat_peer\<close> and has no attribute
  \<^verbatim>\<open>peer\<close>, so every event Telethon delivers is a \<open>NoPeerAttribute\<close> one; an object
  that does carry the attribute holds a peer or \<^verbatim>\<open>None\<close>.\<close>

datatype peer_attribute = NoPeerAttribute | PeerAttribute "peer option"

record deleted_event =
  deleted_ids :: "int list"
  del_chat_id :: "int option"
  del_peer :: peer_attribute

text \<open>The events \<^verbatim>\<open>process\<close> tells apart. A message event carries \<^verbatim>\<open>event.message\<close>,
  which the handler checks for \<^verbatim>\<open>None\<close>.\<close>

datatype event =
    NewMessage "tl_message option"
  | MessageEdited "tl_message option"
  | MessageDeleted deleted_event
  | OtherEvent

subsection \<open>Collaborators and the trace of their calls\<close>

datatype action =
    ClockNow time
  | DbRead int "exn + db_message option"
  | Sleep nat
  | SendMessage ustr "ustr option" "exn option"
  | SendFile ustr ustr "int option" "exn option"
  | CreateMention int int "exn + ustr"
  | RetrieveMedia ustr bool "exn option"
  | ContextEnter "exn + ustr"
  | ContextExit "exn option"
  | PrepareMedia tl_message "exn + ustr option"
  | PrepareMediaExit "exn option"

type_synonym trace = "action list"

record world =
  clock :: "trace \<Rightarrow> time"
  db_get_message_by_id :: "trace \<Rightarrow> int \<Rightarrow> exn + db_message option"
  log_send_message :: "trace \<Rightarrow> ustr \<Rightarrow> ustr option \<Rightarrow> exn option"
  client_send_file :: "trace \<Rightarrow> ustr \<Rightarrow> ustr \<Rightarrow> int option \<Rightarrow> exn option"
  create_mention :: "trace \<Rightarrow> int \<Rightarrow> int \<Rightarrow> exn + ustr"
  retrieve_media_as_file :: "trace \<Rightarrow> ustr \<Rightarrow> bool \<Rightarrow> exn option"
  context_enter :: "trace \<Rightarrow> exn + ustr"
  context_exit :: "trace \<Rightarrow> exn option"
  prepare_media :: "trace \<Rightarrow> tl_message \<Rightarrow> exn + ustr option"
  prepare_media_exit :: "trace \<Rightarrow> exn option"
  get_sender_id :: "tl_message \<Rightarrow> int"
  str_total_seconds :: "time \<Rightarrow> ustr"
  strftime_utc :: "time \<Rightarrow> ustr"

text \<open>The handler's configuration, fixed by \<^verbatim>\<open>__init__\<close> and \<^verbatim>\<open>set_client\<close>. The four
  flags say whether \<^verbatim>\<open>client\<close>, \<^verbatim>\<open>log_sender\<close>, \<^verbatim>\<open>formatter\<close> and
  \<^verbatim>\<open>restricted_media_handler\<close> are set. \<^verbatim>\<open>ignored_ids\<close> and \<^verbatim>\<open>log_chat_id\<close> are
  handed to \<^verbatim>\<open>BaseHandler.__init__\<close> and read back as attributes; they are taken to be
  the values given. The two durations are the \<^verbatim>\<open>timedelta\<close> values made from the
  seconds given.\<close>

record handler =
  log_chat_id :: int
  ignored_ids :: "int set"
  forward_user_ids :: "int set"
  forward_group_ids :: "int set"
  deletion_rate_limit_threshold :: int
  deletion_rate_limit_window :: time
  deletion_pause_duration :: time
  has_client :: bool
  has_log_sender :: bool
  has_formatter :: bool
  has_restricted_media_handler :: bool

text \<open>The handler's mutable state, and the trace of calls made so far.\<close>

record hstate =
  deletion_timestamps :: "time list"
  rate_limit_paused_until :: "time option"
  trace :: trace

definition emit :: "action \<Rightarrow> hstate \<Rightarrow> hstate" where
  "emit a st = st\<lparr>trace := trace st @ [a]\<rparr>"

text \<open>One definition per collaborator call: ask the world, record the call and its
  answer. \<^verbatim>\<open>parse_mode\<close> is \<^verbatim>\<open>"markdown"\<close> at every call and is left out.\<close>

definition now_utc :: "world \<Rightarrow> hstate \<Rightarrow> time \<times> hstate" where
  "now_utc w st = (let t = clock w (trace st) in (t, emit (ClockNow t) st))"

definition get_message_by_id :: "world \<Rightarrow> int \<Rightarrow> hstate \<Rightarrow> (exn + db_message option) \<times> hstate" where
  "get_message_by_id w i st =
     (let r = db_get_message_by_id w (trace st) i in (r, emit (DbRead i r) st))"

definition asyncio_sleep :: "nat \<Rightarrow> hstate \<Rightarrow> hstate" where
  "asyncio_sleep ms st = emit (Sleep ms) st"

definition send_message :: "world \<Rightarrow> ustr \<Rightarrow> ustr option \<Rightarrow> hstate \<Rightarrow> exn option \<times> hstate" where
  "send_message w txt file st =
     (let r = log_send_message w (trace st) txt file in (r, emit (SendMessage txt file r) st))"

definition send_file :: "world \<Rightarrow> ustr \<Rightarrow> ustr \<Rightarrow> int option \<Rightarrow> hstate \<Rightarrow> exn option \<times> hstate" where
  "send_file w path caption reply_to st =
     (let r = client_send_file w (trace st) path caption reply_to
      in (r, emit (SendFile path caption reply_to r) st))"

definition mention :: "world \<Rightarrow> int \<Rightarrow> int \<Rightarrow> hstate \<Rightarrow> (exn + ustr) \<times> hstate" where
  "mention w entity msg_id st =
     (let r = create_mention w (trace st) entity msg_id in (r, emit (CreateMention entity msg_id r) st))"

definition retrieve_media :: "world \<Rightarrow> ustr \<Rightarrow> bool \<Rightarrow> hstate \<Rightarrow> exn option \<times> hstate" where
  "retrieve_media w path restricted st =
     (let r = retrieve_media_as_file w (trace st) path restricted
      in (r, emit (RetrieveMedia path restricted r) st))"

definition enter_context :: "world \<Rightarrow> hstate \<Rightarrow> (exn + ustr) \<times> hstate" where
  "enter_context w st = (let r = context_enter w (trace st) in (r, emit (ContextEnter r) st))"

definition exit_context :: "world \<Rightarrow> hstate \<Rightarrow> exn option \<times> hstate" where
  "exit_context w st = (let r = context_exit w (trace st) in (r, emit (ContextExit r) st))"

definition enter_prepare_media :: "world \<Rightarrow> tl_message \<Rightarrow> hstate \<Rightarrow> (exn + ustr option) \<times> hstate" where
  "enter_prepare_media w m st =
     (let r = prepare_media w (trace st) m in (r, emit (PrepareMedia m r) st))"

definition exit_prepare_media :: "world \<Rightarrow> hstate \<Rightarrow> exn option \<times> hstate" where
  "exit_prepare_media w st =
     (let r = prepare_media_exit w (trace st) in (r, emit (PrepareMediaExit r) st))"

subsection \<open>Filters\<close>

text \<open>\<^verbatim>\<open>x in ids\<close> for an optional id: \<^verbatim>\<open>None\<close> is in no set of integers.\<close>

fun in_ids :: "int option \<Rightarrow> int set \<Rightarrow> bool" where
  "in_ids None S = False"
| "in_ids (Some i) S = (i \<in> S)"

text \<open>\<^verbatim>\<open>_should_forward\<close> (lines 203-239), on \<^verbatim>\<open>event.message\<close>.\<close>

definition should_forward :: "handler \<Rightarrow> world \<Rightarrow> tl_message option \<Rightarrow> bool" where
  "should_forward h w message =
     (case message of
        None \<Rightarrow> False
      | Some m \<Rightarrow>
          (let sender_id = get_sender_id w m;
               chat_id = tl_chat_id m
           in if sender_id \<in> ignored_ids h then False
              else if truthy_int chat_id \<and> in_ids chat_id (ignored_ids h) then False
              else (let is_incoming_private = (tl_is_private m \<and> \<not> tl_out m);
                        is_group = tl_is_group m
                    in if is_incoming_private \<and> sender_id \<in> forward_user_ids h then True
                       else if is_group \<and> in_ids chat_id (forward_group_ids h) then True
                       else False)))"

text \<open>\<^verbatim>\<open>int(s)\<close> on an optional minus sign followed by decimal digits, the only strings it
  is applied to here.\<close>

definition int_of_digits :: "ustr \<Rightarrow> int" where
  "int_of_digits ds = foldl (\<lambda>a d. 10 * a + (int d - 48)) 0 ds"

definition py_int :: "ustr \<Rightarrow> int" where
  "py_int s = (if s \<noteq> [] \<and> hd s = 45 then - int_of_digits (tl s) else int_of_digits s)"

text \<open>The \<^verbatim>\<open>AttributeError\<close> of reading \<^verbatim>\<open>event.peer\<close> on an object without that
  attribute: \<^verbatim>\<open>'Event' object has no attribute 'peer'\<close>.\<close>

definition no_peer_attribute :: exn where
  "no_peer_attribute =
     AttributeError
       [39, 69, 118, 101, 110, 116, 39, 32, 111, 98, 106, 101, 99, 116, 32, 104, 97,
        115, 32, 110, 111, 32, 97, 116, 116, 114, 105, 98, 117, 116, 101, 32, 39, 112,
        101, 101, 114, 39]"

text \<open>The chat id of a deletion event (lines 243-251): the event's own, or, when that is
  \<^verbatim>\<open>None\<close>, one derived from \<^verbatim>\<open>event.peer\<close>; \<^verbatim>\<open>int(f"-100{chat_id}")\<close> for a positive
  channel id. The condition of line 245, \<^verbatim>\<open>chat_id is None and event.peer\<close>, reads the
  attribute whenever the chat id is \<^verbatim>\<open>None\<close>, and the read raises when the attribute does
  not exist.\<close>

definition resolve_chat_id :: "deleted_event \<Rightarrow> exn + int option" where
  "resolve_chat_id ev =
     (case del_chat_id ev of
        Some c \<Rightarrow> Inr (Some c)
      | None \<Rightarrow>
          (case del_peer ev of
             NoPeerAttribute \<Rightarrow> Inl no_peer_attribute
           | PeerAttribute None \<Rightarrow> Inr None
           | PeerAttribute (Some (PeerChannel c)) \<Rightarrow>
               Inr (Some (if c > 0 then py_int ([45, 49, 48, 48] @ str_int c) else c))
           | PeerAttribute (Some (PeerChat c)) \<Rightarrow> Inr (Some (- c))
           | PeerAttribute (Some (PeerUser u)) \<Rightarrow> Inr None))"

text \<open>\<^verbatim>\<open>_should_log_deletion\<close> (lines 241-271). Nothing in it catches the exception of
  line 245, which leaves the function before any rule is consulted.\<close>

definition should_log_deletion :: "handler \<Rightarrow> deleted_event \<Rightarrow> exn + bool" where
  "should_log_deletion h ev =
     (case resolve_chat_id ev of
        Inl e \<Rightarrow> Inl e
      | Inr chat_id \<Rightarrow>
          Inr (if truthy_int chat_id \<and> in_ids chat_id (ignored_ids h) then False
               else if truthy_int chat_id \<and> in_ids chat_id (forward_group_ids h) then True
               else if chat_id = None then True
               else False))"

subsection \<open>Retrying lookup\<close>

text \<open>\<^verbatim>\<open>chat_id is None or message.chat_id == chat_id\<close>.\<close>

definition chat_matches :: "int option \<Rightarrow> db_message \<Rightarrow> bool" where
  "chat_matches chat_id m = (chat_id = None \<or> db_chat_id m = chat_id)"

text \<open>\<^verbatim>\<open>_get_message_from_db_with_retry\<close> (lines 275-309). The delay of 0.5 seconds is
  recorded in milliseconds. A stored message object is true whenever it is not
  \<^verbatim>\<open>None\<close>. An exception of either read ends in the handler of line 307.\<close>

definition retry_delay :: nat where
  "retry_delay = 500"

definition get_message_from_db_with_retry ::
    "world \<Rightarrow> int \<Rightarrow> int option \<Rightarrow> hstate \<Rightarrow> db_message option \<times> hstate" where
  "get_message_from_db_with_retry w message_id chat_id st =
     (case get_message_by_id w message_id st of
        (Inl e, st1) \<Rightarrow> (None, st1)
      | (Inr (Some m), st1) \<Rightarrow> (if chat_matches chat_id m then Some m else None, st1)
      | (Inr None, st1) \<Rightarrow>
          (let st2 = asyncio_sleep retry_delay st1
           in case get_message_by_id w message_id st2 of
                (Inl e, st3) \<Rightarrow> (None, st3)
              | (Inr (Some m), st3) \<Rightarrow> (if chat_matches chat_id m then Some m else None, st3)
              | (Inr None, st3) \<Rightarrow> (None, st3)))"

subsection \<open>Deletion rate limiter\<close>

text \<open>The notice sent when the limiter pauses (lines 352-354):
  \<^verbatim>\<open>"\u26a0\ufe0f **\u5220\u9664\u6d88\u606f\u901f\u7387\u8fc7\u5feb**\n\u68c0\u6d4b\u5230\u5927\u91cf\u5220\u9664\u4e8b\u4ef6 (\u8d85\u8fc7 "\<close>,
  the threshold, \<^verbatim>\<open>" \u6761 / "\<close>, the window's \<^verbatim>\<open>total_seconds()\<close>,
  \<^verbatim>\<open>" \u79d2)\u3002\n\u5c06\u6682\u505c\u8bb0\u5f55\u5220\u9664\u4e8b\u4ef6 "\<close>, the pause's \<^verbatim>\<open>total_seconds()\<close>,
  \<^verbatim>\<open>" \u79d2\u4ee5\u907f\u514d\u5237\u5c4f\u3002"\<close>.\<close>

definition pause_notice :: "handler \<Rightarrow> world \<Rightarrow> ustr" where
  "pause_notice h w =
     [9888, 65039, 32, 42, 42, 21024, 38500, 28040, 24687, 36895, 29575, 36807, 24555, 42, 42, 10,
      26816, 27979, 21040, 22823, 37327, 21024, 38500, 20107, 20214, 32, 40, 36229, 36807, 32]
     @ str_int (deletion_rate_limit_threshold h)
     @ [32, 26465, 32, 47, 32]
     @ str_total_seconds w (deletion_rate_limit_window h)
     @ [32, 31186, 41, 12290, 10, 23558, 26242, 20572, 35760, 24405, 21024, 38500, 20107, 20214, 32]
     @ str_total_seconds w (deletion_pause_duration h)
     @ [32, 31186, 20197, 36991, 20813, 21047, 23631, 12290]"

text \<open>The loop of lines 333-334: drop timestamps from the front while they are at or
  before the cutoff.\<close>

fun evict :: "time \<Rightarrow> time list \<Rightarrow> time list" where
  "evict cutoff [] = []"
| "evict cutoff (t # ts) = (if t \<le> cutoff then evict cutoff ts else t # ts)"

text \<open>The three ways \<^verbatim>\<open>_apply_deletion_rate_limit\<close> returns: refused inside a pause
  (line 324), refused at the call that starts a pause (line 362), admitted (line 365).\<close>

datatype gate = StillPaused | Triggered | Admitted

fun allowed :: "gate \<Rightarrow> bool" where
  "allowed StillPaused = False"
| "allowed Triggered = False"
| "allowed Admitted = True"

text \<open>Lines 320-365, for a given reading \<open>now\<close> of the clock.\<close>

definition rate_limit_at :: "handler \<Rightarrow> world \<Rightarrow> time \<Rightarrow> hstate \<Rightarrow> gate \<times> hstate" where
  "rate_limit_at h w now st =
     (if (case rate_limit_paused_until st of None \<Rightarrow> False | Some p \<Rightarrow> now < p)
      then (StillPaused, st)
      else
        (let st1 = (case rate_limit_paused_until st of
                      None \<Rightarrow> st
                    | Some p \<Rightarrow> if now \<ge> p then st\<lparr>rate_limit_paused_until := None\<rparr> else st);
             cutoff = now - deletion_rate_limit_window h;
             st2 = st1\<lparr>deletion_timestamps := evict cutoff (deletion_timestamps st1)\<rparr>;
             st3 = st2\<lparr>deletion_timestamps := deletion_timestamps st2 @ [now]\<rparr>
         in if int (length (deletion_timestamps st3)) > deletion_rate_limit_threshold h
            then (let st4 = st3\<lparr>rate_limit_paused_until := Some (now + deletion_pause_duration h)\<rparr>
                  in if has_log_sender h
                     then (Triggered, snd (send_message w (pause_notice h w) None st4))
                     else (Triggered, st4))
            else (Admitted, st3)))"

text \<open>\<^verbatim>\<open>_apply_deletion_rate_limit\<close> (lines 313-365): read the clock, then the above.\<close>

definition apply_deletion_rate_limit :: "handler \<Rightarrow> world \<Rightarrow> hstate \<Rightarrow> gate \<times> hstate" where
  "apply_deletion_rate_limit h w st =
     (case now_utc w st of (now, st0) \<Rightarrow> rate_limit_at h w now st0)"

subsection \<open>Formatter\<close>

text \<open>The literals of \<^verbatim>\<open>_format_output_message\<close>.\<close>

text \<open>\<^verbatim>\<open>"... (\u6d88\u606f\u8fc7\u957f\u622a\u65ad)"\<close>\<close>

definition truncation_marker :: ustr where
  "truncation_marker =
     [46, 46, 46, 32, 40, 28040, 24687, 36807, 38271, 25130, 26029, 41]"

text \<open>\<^verbatim>\<open>"\u65b0\u6d88\u606f"\<close>\<close>

definition event_new :: ustr where
  "event_new =
     [26032, 28040, 24687]"

text \<open>\<^verbatim>\<open>"\u7f16\u8f91\u6d88\u606f"\<close>\<close>

definition event_edited :: ustr where
  "event_edited =
     [32534, 36753, 28040, 24687]"

text \<open>\<^verbatim>\<open>"\u5220\u9664\u6d88\u606f"\<close>\<close>

definition event_deleted :: ustr where
  "event_deleted =
     [21024, 38500, 28040, 24687]"

text \<open>\<^verbatim>\<open>"\u2709\ufe0f **\u65b0\u6d88\u606f** "\<close>\<close>

definition header_new :: ustr where
  "header_new =
     [9993, 65039, 32, 42, 42, 26032, 28040, 24687, 42, 42, 32]"

text \<open>\<^verbatim>\<open>"\u270f\ufe0f **\u7f16\u8f91\u6d88\u606f** "\<close>\<close>

definition header_edited :: ustr where
  "header_edited =
     [9999, 65039, 32, 42, 42, 32534, 36753, 28040, 24687, 42, 42, 32]"

text \<open>\<^verbatim>\<open>"\U0001f5d1\ufe0f **\u5220\u9664\u6d88\u606f** "\<close>\<close>

definition header_deleted :: ustr where
  "header_deleted =
     [128465, 65039, 32, 42, 42, 21024, 38500, 28040, 24687, 42, 42, 32]"

text \<open>\<^verbatim>\<open>"\n**\u6765\u81ea:** "\<close>\<close>

definition label_from :: ustr where
  "label_from =
     [10, 42, 42, 26469, 33258, 58, 42, 42, 32]"

text \<open>\<^verbatim>\<open>"\u672a\u77e5\u65f6\u95f4"\<close>\<close>

definition unknown_time :: ustr where
  "unknown_time =
     [26410, 30693, 26102, 38388]"

text \<open>\<^verbatim>\<open>"\n**\u7f16\u8f91\u4e8e:** "\<close>\<close>

definition label_edited_at :: ustr where
  "label_edited_at =
     [10, 42, 42, 32534, 36753, 20110, 58, 42, 42, 32]"

text \<open>\<^verbatim>\<open>" (\u666e\u901a\u7fa4\u7ec4)"\<close>\<close>

definition plain_group_note :: ustr where
  "plain_group_note =
     [32, 40, 26222, 36890, 32676, 32452, 41]"

text \<open>\<^verbatim>\<open>" [\u539f\u59cb\u6d88\u606f](https://t.me/c/"\<close>\<close>

definition original_link_prefix :: ustr where
  "original_link_prefix =
     [32, 91, 21407, 22987, 28040, 24687, 93, 40, 104, 116, 116, 112, 115, 58, 47, 47, 116, 46,
      109, 101, 47, 99, 47]"

text \<open>\<^verbatim>\<open>"\n**\u56de\u590d:** `"\<close>\<close>

definition label_reply :: ustr where
  "label_reply =
     [10, 42, 42, 22238, 22797, 58, 42, 42, 32, 96]"

text \<open>\<^verbatim>\<open>"\n**\u5a92\u4f53:** "\<close>\<close>

definition label_media :: ustr where
  "label_media =
     [10, 42, 42, 23186, 20307, 58, 42, 42, 32]"

text \<open>\<^verbatim>\<open>"\n**\u6d88\u606f ID:** `"\<close>\<close>

definition label_message_id :: ustr where
  "label_message_id =
     [10, 42, 42, 28040, 24687, 32, 73, 68, 58, 42, 42, 32, 96]"

text \<open>\<^verbatim>\<open>"\n**\u65f6\u95f4:** "\<close>\<close>

definition label_time :: ustr where
  "label_time =
     [10, 42, 42, 26102, 38388, 58, 42, 42, 32]"

text \<open>\<^verbatim>\<open>"\u274c \u683c\u5f0f\u5316\u9519\u8bef\uff1a\u5ba2\u6237\u7aef\u672a\u8bbe\u7f6e\u3002"\<close>\<close>

definition error_client_not_set :: ustr where
  "error_client_not_set =
     [10060, 32, 26684, 24335, 21270, 38169, 35823, 65306, 23458, 25143, 31471, 26410, 35774,
      32622, 12290]"

text \<open>\<^verbatim>\<open>"\u274c \u683c\u5f0f\u5316\u6d88\u606f\u65f6\u51fa\u9519 (ID: "\<close>\<close>

definition error_formatting_prefix :: ustr where
  "error_formatting_prefix =
     [10060, 32, 26684, 24335, 21270, 28040, 24687, 26102, 20986, 38169, 32, 40, 73, 68, 58, 32]"

text \<open>\<^verbatim>\<open>")\u3002"\<close>\<close>

definition error_formatting_suffix :: ustr where
  "error_formatting_suffix =
     [41, 12290]"

text \<open>Lines 451-453: a text of more than 3500 characters is cut to its first 3500
  and the marker is appended.\<close>

definition truncate_text :: "ustr \<Rightarrow> ustr" where
  "truncate_text t = (if length t > 3500 then take 3500 t @ truncation_marker else t)"

text \<open>Line 485: \<^verbatim>\<open>replace('*', '\\*').replace('_', '\\_').replace('`', '\\`')\<close>.\<close>

definition escape_markdown :: "ustr \<Rightarrow> ustr" where
  "escape_markdown t =
     replace_char 96 [92, 96] (replace_char 95 [92, 95] (replace_char 42 [92, 42] t))"

text \<open>Lines 431-449: the reply line of the footer. \<^verbatim>\<open>startswith\<close> is a comparison of the
  first characters.\<close>

definition reply_link :: "int option \<Rightarrow> int \<Rightarrow> ustr" where
  "reply_link chat_id_for_link reply_to_msg_id =
     (case chat_id_for_link of
        None \<Rightarrow> []
      | Some c \<Rightarrow>
          if c = 0 then []
          else (let s = str_int (abs c);
                    link_chat_id_str = (if take 3 s = [49, 48, 48] then drop 3 s else s)
                in if take 4 (str_int c) \<noteq> [45, 49, 48, 48] then plain_group_note
                   else original_link_prefix @ link_chat_id_str @ [47]
                        @ str_int reply_to_msg_id @ [41]))"

definition reply_to_str :: "int option \<Rightarrow> int option \<Rightarrow> ustr" where
  "reply_to_str chat_id_for_link reply_to_msg_id =
     (case reply_to_msg_id of
        None \<Rightarrow> []
      | Some r \<Rightarrow>
          if r = 0 then []
          else label_reply @ str_int r @ [96] @ reply_link chat_id_for_link r)"

text \<open>Lines 456-462: the header, by the event type.\<close>

definition header_of :: "ustr \<Rightarrow> ustr \<Rightarrow> ustr \<Rightarrow> ustr" where
  "header_of event_type chat_mention sender_mention =
     (if event_type = event_new then header_new @ chat_mention @ label_from @ sender_mention
      else if event_type = event_edited then header_edited @ chat_mention @ label_from @ sender_mention
      else if event_type = event_deleted then header_deleted @ chat_mention @ label_from @ sender_mention
      else [])"

text \<open>Lines 469-474: the name of the first filename attribute, in parentheses.\<close>

fun filename_of :: "attribute list \<Rightarrow> ustr" where
  "filename_of [] = []"
| "filename_of (DocumentAttributeFilename n # as) = [32, 40] @ n @ [41]"
| "filename_of (a # as) = filename_of as"

datatype message_data = Live tl_message | Stored db_message

text \<open>Lines 464-478: the media line of the footer.\<close>

definition media_indicator :: "message_data \<Rightarrow> ustr" where
  "media_indicator message_data =
     (case message_data of
        Live m \<Rightarrow>
          (case tl_media m of
             None \<Rightarrow> []
           | Some md \<Rightarrow>
               label_media @ media_class_name md
               @ (case media_attributes md of None \<Rightarrow> [] | Some as \<Rightarrow> filename_of as))
      | Stored d \<Rightarrow>
          (case db_media_type d of
             None \<Rightarrow> []
           | Some t \<Rightarrow> if t = [] then [] else label_media @ t))"

text \<open>Lines 427-430 and 481: dates and footer.\<close>

definition date_str :: "world \<Rightarrow> time option \<Rightarrow> ustr" where
  "date_str w date = (case date of None \<Rightarrow> unknown_time | Some d \<Rightarrow> strftime_utc w d)"

definition edit_date_str :: "world \<Rightarrow> time option \<Rightarrow> bool \<Rightarrow> ustr" where
  "edit_date_str w edit_date is_deleted =
     (case edit_date of
        None \<Rightarrow> []
      | Some d \<Rightarrow> if is_deleted then [] else label_edited_at @ strftime_utc w d)"

definition footer_of ::
    "world \<Rightarrow> message_data \<Rightarrow> int \<Rightarrow> int option \<Rightarrow> int option \<Rightarrow> time option \<Rightarrow> time option \<Rightarrow> bool \<Rightarrow> ustr" where
  "footer_of w message_data msg_id chat_id reply_to_msg_id date edit_date is_deleted =
     label_message_id @ str_int msg_id @ [96] @ reply_to_str chat_id reply_to_msg_id
     @ label_time @ date_str w date @ edit_date_str w edit_date is_deleted
     @ media_indicator message_data"

text \<open>The string returned by the handler of line 489.\<close>

definition formatting_error :: "int \<Rightarrow> ustr" where
  "formatting_error msg_id = error_formatting_prefix @ str_int msg_id @ error_formatting_suffix"

text \<open>Lines 404-405 and 420-421: the chat mention is looked up when the chat id is true and
  the message is not private.\<close>

definition chat_mention_of ::
    "world \<Rightarrow> int option \<Rightarrow> bool \<Rightarrow> int \<Rightarrow> hstate \<Rightarrow> (exn + ustr) \<times> hstate" where
  "chat_mention_of w chat_id is_private msg_id st =
     (case chat_id of
        None \<Rightarrow> (Inr [], st)
      | Some c \<Rightarrow> if c \<noteq> 0 \<and> \<not> is_private then mention w c msg_id st else (Inr [], st))"

text \<open>Lines 427-487, once the mentions are known: the text is \<^verbatim>\<open>None\<close> only for a stored
  message without text, where \<^verbatim>\<open>len\<close> raises and the handler of line 489 answers.\<close>

definition assemble ::
    "world \<Rightarrow> ustr \<Rightarrow> message_data \<Rightarrow> bool \<Rightarrow> int \<Rightarrow> int option \<Rightarrow> ustr option \<Rightarrow> time option \<Rightarrow>
     time option \<Rightarrow> int option \<Rightarrow> ustr \<Rightarrow> ustr \<Rightarrow> ustr" where
  "assemble w event_type message_data is_deleted msg_id chat_id text_content date edit_date
            reply_to_msg_id sender_mention chat_mention =
     (case text_content of
        None \<Rightarrow> formatting_error msg_id
      | Some t \<Rightarrow>
          header_of event_type chat_mention sender_mention @ [10, 10]
          @ escape_markdown (truncate_text t) @ [10]
          @ footer_of w message_data msg_id chat_id reply_to_msg_id date edit_date is_deleted)"

text \<open>\<^verbatim>\<open>_format_output_message\<close> (lines 369-493). The two branches of lines 391-421 differ
  in where the fields come from; the branch of line 423 needs a value that is neither kind
  of message. An exception of \<^verbatim>\<open>create_mention\<close> ends in the handler of line 489.\<close>

definition format_output_message ::
    "handler \<Rightarrow> world \<Rightarrow> ustr \<Rightarrow> message_data \<Rightarrow> bool \<Rightarrow> hstate \<Rightarrow> ustr \<times> hstate" where
  "format_output_message h w event_type message_data is_deleted st =
     (if \<not> has_client h then (error_client_not_set, st)
      else
        (case message_data of
           Live m \<Rightarrow>
             (case mention w (get_sender_id w m) (tl_id m) st of
                (Inl e, st1) \<Rightarrow> (formatting_error (tl_id m), st1)
              | (Inr sender_mention, st1) \<Rightarrow>
                  (case chat_mention_of w (tl_chat_id m) (tl_is_private m) (tl_id m) st1 of
                     (Inl e, st2) \<Rightarrow> (formatting_error (tl_id m), st2)
                   | (Inr chat_mention, st2) \<Rightarrow>
                       (assemble w event_type message_data is_deleted (tl_id m) (tl_chat_id m)
                          (Some (case tl_text m of None \<Rightarrow> [] | Some t \<Rightarrow> t))
                          (tl_date m) (tl_edit_date m) (tl_reply_to_msg_id m)
                          sender_mention chat_mention, st2)))
         | Stored d \<Rightarrow>
             (case mention w (db_from_id d) (db_id d) st of
                (Inl e, st1) \<Rightarrow> (formatting_error (db_id d), st1)
              | (Inr sender_mention, st1) \<Rightarrow>
                  (case chat_mention_of w (db_chat_id d) (db_is_private d) (db_id d) st1 of
                     (Inl e, st2) \<Rightarrow> (formatting_error (db_id d), st2)
                   | (Inr chat_mention, st2) \<Rightarrow>
                       (assemble w event_type message_data is_deleted (db_id d) (db_chat_id d)
                          (db_text d) (db_date d) (db_edit_date d) (db_reply_to_msg_id d)
                          sender_mention chat_mention, st2)))))"

subsection \<open>Media delivery\<close>

text \<open>The literals of \<^verbatim>\<open>_send_message_with_media\<close>.\<close>

text \<open>\<^verbatim>\<open>"\u26a0\ufe0f **\u5a92\u4f53\u53d1\u9001\u5931\u8d25 (\u521d\u59cb\u5316\u9519\u8bef)** \u26a0\ufe0f\n\n"\<close>\<close>

definition init_failure_prefix :: ustr where
  "init_failure_prefix =
     [9888, 65039, 32, 42, 42, 23186, 20307, 21457, 36865, 22833, 36133, 32, 40, 21021, 22987,
      21270, 38169, 35823, 41, 42, 42, 32, 9888, 65039, 10, 10]"

text \<open>\<^verbatim>\<open>"\u26a0\ufe0f **\u5a92\u4f53\u53ef\u80fd\u672a\u53d1\u9001** \u26a0\ufe0f\n\n"\<close>\<close>

definition media_warning_prefix :: ustr where
  "media_warning_prefix =
     [9888, 65039, 32, 42, 42, 23186, 20307, 21487, 33021, 26410, 21457, 36865, 42, 42, 32, 9888,
      65039, 10, 10]"

text \<open>\<^verbatim>\<open>"\n\n(\u539f\u59cb\u5a92\u4f53\u672a\u80fd\u6210\u529f\u5904\u7406\u6216\u53d1\u9001)"\<close>\<close>

definition media_warning_suffix :: ustr where
  "media_warning_suffix =
     [10, 10, 40, 21407, 22987, 23186, 20307, 26410, 33021, 25104, 21151, 22788, 29702, 25110,
      21457, 36865, 41]"

text \<open>\<^verbatim>\<open>"\u274c **\u53d1\u9001\u6d88\u606f\u65f6\u53d1\u751f\u4e25\u91cd\u9519\u8bef** \u274c\n\n\u5c1d\u8bd5\u5904\u7406\u6d88\u606f ID `"\<close>\<close>

definition critical_prefix :: ustr where
  "critical_prefix =
     [10060, 32, 42, 42, 21457, 36865, 28040, 24687, 26102, 21457, 29983, 20005, 37325, 38169,
      35823, 42, 42, 32, 10060, 10, 10, 23581, 35797, 22788, 29702, 28040, 24687, 32, 73, 68, 32,
      96]"

text \<open>\<^verbatim>\<open>"` \u65f6\u9047\u5230\u610f\u5916\u95ee\u9898\u3002\n\u9519\u8bef: "\<close>\<close>

definition critical_middle :: ustr where
  "critical_middle =
     [96, 32, 26102, 36935, 21040, 24847, 22806, 38382, 39064, 12290, 10, 38169, 35823, 58, 32]"

text \<open>\<^verbatim>\<open>"\n\n\u539f\u59cb\u6587\u672c\u5185\u5bb9 (\u53ef\u80fd\u4e0d\u5b8c\u6574):\n"\<close>\<close>

definition critical_text_label :: ustr where
  "critical_text_label =
     [10, 10, 21407, 22987, 25991, 26412, 20869, 23481, 32, 40, 21487, 33021, 19981, 23436,
      25972, 41, 58, 10]"

text \<open>How a branch of the delivery ends: it returned after a successful send, it fell
  through to the code after it, or an exception left it for the handler of line 629.\<close>

datatype flow = Returned | FellThrough | Raised exn

text \<open>Lines 530-554 and 600-617: send a stored file. The context manager is exited in
  \<^verbatim>\<open>finally\<close> whenever it was created, and the variable is reset there, so the
  \<^verbatim>\<open>finally\<close> of line 643 finds no context to exit. Both \<^verbatim>\<open>except\<close> clauses only
  log, so every exception falls through. The send is a parameter: \<^verbatim>\<open>client.send_file\<close>
  for a sticker, \<^verbatim>\<open>log_sender.send_message\<close> with a file otherwise.\<close>

definition send_stored_file ::
    "world \<Rightarrow> ustr \<Rightarrow> bool \<Rightarrow> (ustr \<Rightarrow> hstate \<Rightarrow> exn option \<times> hstate) \<Rightarrow> hstate \<Rightarrow> flow \<times> hstate" where
  "send_stored_file w path restricted send st =
     (case retrieve_media w path restricted st of
        (Some e, st1) \<Rightarrow> (FellThrough, st1)
      | (None, st1) \<Rightarrow>
          (case enter_context w st1 of
             (Inl e, st2) \<Rightarrow> (FellThrough, snd (exit_context w st2))
           | (Inr media_file_path, st2) \<Rightarrow>
               (case send media_file_path st2 of
                  (Some e, st3) \<Rightarrow> (FellThrough, snd (exit_context w st3))
                | (None, st3) \<Rightarrow> (Returned, snd (exit_context w st3)))))"

text \<open>Lines 559-575 and 582-592: fetch the media through the restricted media handler and
  send it. An exception of the fetch, of the send or of leaving the \<^verbatim>\<open>async with\<close>
  block is logged, and the branch falls through; so does an empty path.\<close>

definition send_prepared_media ::
    "world \<Rightarrow> tl_message \<Rightarrow> (ustr \<Rightarrow> hstate \<Rightarrow> exn option \<times> hstate) \<Rightarrow> hstate \<Rightarrow> flow \<times> hstate" where
  "send_prepared_media w m send st =
     (case enter_prepare_media w m st of
        (Inl e, st1) \<Rightarrow> (FellThrough, st1)
      | (Inr None, st1) \<Rightarrow> (FellThrough, snd (exit_prepare_media w st1))
      | (Inr (Some prepared_media_path), st1) \<Rightarrow>
          if prepared_media_path = [] then (FellThrough, snd (exit_prepare_media w st1))
          else
            (case send prepared_media_path st1 of
               (Some e, st2) \<Rightarrow> (FellThrough, snd (exit_prepare_media w st2))
             | (None, st2) \<Rightarrow>
                 (case exit_prepare_media w st2 of
                    (Some e, st3) \<Rightarrow> (FellThrough, st3)
                  | (None, st3) \<Rightarrow> (Returned, st3))))"

text \<open>Lines 528-556: the sticker from the stored file. The database read is outside the
  inner \<^verbatim>\<open>try\<close>, so its exception goes to the handler of line 629.\<close>

definition sticker_from_db :: "world \<Rightarrow> ustr \<Rightarrow> tl_message \<Rightarrow> hstate \<Rightarrow> flow \<times> hstate" where
  "sticker_from_db w txt m st =
     (case get_message_by_id w (tl_id m) st of
        (Inl e, st1) \<Rightarrow> (Raised e, st1)
      | (Inr None, st1) \<Rightarrow> (FellThrough, st1)
      | (Inr (Some d), st1) \<Rightarrow>
          if truthy_str (db_media_path d)
          then send_stored_file w (case db_media_path d of None \<Rightarrow> [] | Some p \<Rightarrow> p)
                 (db_is_restricted d)
                 (\<lambda>file_path. send_file w file_path txt (tl_reply_to_msg_id m)) st1
          else (FellThrough, st1))"

text \<open>Lines 558-575: the sticker fetched afresh.\<close>

definition sticker_dynamic :: "world \<Rightarrow> ustr \<Rightarrow> tl_message \<Rightarrow> hstate \<Rightarrow> flow \<times> hstate" where
  "sticker_dynamic w txt m st =
     send_prepared_media w m (\<lambda>file_path. send_file w file_path txt (tl_reply_to_msg_id m)) st"

text \<open>Lines 524-577.\<close>

definition sticker_branch :: "world \<Rightarrow> ustr \<Rightarrow> tl_message \<Rightarrow> hstate \<Rightarrow> flow \<times> hstate" where
  "sticker_branch w txt m st =
     (case sticker_from_db w txt m st of
        (FellThrough, st1) \<Rightarrow> sticker_dynamic w txt m st1
      | (Returned, st1) \<Rightarrow> (Returned, st1)
      | (Raised e, st1) \<Rightarrow> (Raised e, st1))"

text \<open>Lines 579-593.\<close>

definition restricted_branch :: "world \<Rightarrow> ustr \<Rightarrow> tl_message \<Rightarrow> hstate \<Rightarrow> flow \<times> hstate" where
  "restricted_branch w txt m st =
     send_prepared_media w m (\<lambda>file_path. send_message w txt (Some file_path)) st"

text \<open>Lines 595-620.\<close>

definition normal_branch :: "world \<Rightarrow> ustr \<Rightarrow> tl_message \<Rightarrow> hstate \<Rightarrow> flow \<times> hstate" where
  "normal_branch w txt m st =
     (case get_message_by_id w (tl_id m) st of
        (Inl e, st1) \<Rightarrow> (Raised e, st1)
      | (Inr None, st1) \<Rightarrow> (FellThrough, st1)
      | (Inr (Some d), st1) \<Rightarrow>
          if truthy_str (db_media_path d)
          then send_stored_file w (case db_media_path d of None \<Rightarrow> [] | Some p \<Rightarrow> p) False
                 (\<lambda>file_path. send_message w txt (Some file_path)) st1
          else (FellThrough, st1))"

text \<open>Lines 622-627: the text alone, marked as sent without its media.\<close>

definition media_warning :: "ustr \<Rightarrow> ustr" where
  "media_warning txt = media_warning_prefix @ txt @ media_warning_suffix"

definition text_fallback :: "world \<Rightarrow> ustr \<Rightarrow> hstate \<Rightarrow> flow \<times> hstate" where
  "text_fallback w txt st =
     (case send_message w (media_warning txt) None st of
        (Some e, st1) \<Rightarrow> (Raised e, st1)
      | (None, st1) \<Rightarrow> (Returned, st1))"

text \<open>Line 521: some attribute in \<^verbatim>\<open>getattr(message.media, 'attributes', [])\<close> is a
  sticker attribute. The list read is that of the media object itself, empty when the
  object has no such attribute; the attributes of its document are not looked at.\<close>

definition is_sticker :: "media \<Rightarrow> bool" where
  "is_sticker md =
     (case media_attributes md of
        None \<Rightarrow> False
      | Some as \<Rightarrow> list_ex (\<lambda>a. a = DocumentAttributeSticker) as)"

text \<open>Lines 512-627, the body of the outer \<^verbatim>\<open>try\<close>.\<close>

definition deliver_body :: "world \<Rightarrow> ustr \<Rightarrow> tl_message \<Rightarrow> hstate \<Rightarrow> flow \<times> hstate" where
  "deliver_body w txt m st =
     (case tl_media m of
        None \<Rightarrow>
          (case send_message w txt None st of
             (Some e, st1) \<Rightarrow> (Raised e, st1)
           | (None, st1) \<Rightarrow> (Returned, st1))
      | Some md \<Rightarrow>
          (case (if is_sticker md then sticker_branch w txt m st
                 else if tl_noforwards m then restricted_branch w txt m st
                 else normal_branch w txt m st) of
             (FellThrough, st1) \<Rightarrow> text_fallback w txt st1
           | (Returned, st1) \<Rightarrow> (Returned, st1)
           | (Raised e, st1) \<Rightarrow> (Raised e, st1)))"

text \<open>Lines 629-642: the message sent from the handler of the outer \<^verbatim>\<open>try\<close>; a failure
  of this send is logged and nothing more.\<close>

definition critical_message :: "tl_message \<Rightarrow> exn \<Rightarrow> ustr \<Rightarrow> ustr" where
  "critical_message m e txt =
     critical_prefix @ str_int (tl_id m) @ critical_middle @ exn_type_name e @ [58, 32]
     @ exn_message e @ critical_text_label @ take 500 txt @ [46, 46, 46]"

text \<open>\<^verbatim>\<open>_send_message_with_media\<close> (lines 496-649). The send of line 503 is outside every
  \<^verbatim>\<open>try\<close>, so its exception leaves the function.\<close>

definition send_message_with_media ::
    "handler \<Rightarrow> world \<Rightarrow> ustr \<Rightarrow> tl_message \<Rightarrow> hstate \<Rightarrow> (exn + unit) \<times> hstate" where
  "send_message_with_media h w txt m st =
     (if \<not> has_log_sender h \<or> \<not> has_restricted_media_handler h \<or> \<not> has_client h
      then (if has_log_sender h
            then (case send_message w (init_failure_prefix @ txt) None st of
                    (Some e, st1) \<Rightarrow> (Inl e, st1)
                  | (None, st1) \<Rightarrow> (Inr (), st1))
            else (Inr (), st))
      else
        (case deliver_body w txt m st of
           (Raised e, st1) \<Rightarrow>
             (if has_log_sender h
              then (Inr (), snd (send_message w (critical_message m e txt) None st1))
              else (Inr (), st1))
         | (Returned, st1) \<Rightarrow> (Inr (), st1)
         | (FellThrough, st1) \<Rightarrow> (Inr (), st1)))"

subsection \<open>Event handlers and the dispatcher\<close>

text \<open>\<^verbatim>\<open>"'NoneType' object has no attribute 'id'"\<close>: what \<^verbatim>\<open>event.message.id\<close> raises in
  the log lines 120, 123, 133 and 136 when the event has no message.\<close>

definition none_has_no_id :: exn where
  "none_has_no_id =
     AttributeError [39, 78, 111, 110, 101, 84, 121, 112, 101, 39, 32, 111, 98, 106, 101, 99, 116,
       32, 104, 97, 115, 32, 110, 111, 32, 97, 116, 116, 114, 105, 98, 117, 116, 101, 32, 39, 105,
       100, 39]"

text \<open>\<^verbatim>\<open>_process_new_message\<close> (lines 117-127).\<close>

definition process_new_message ::
    "handler \<Rightarrow> world \<Rightarrow> tl_message option \<Rightarrow> hstate \<Rightarrow> (exn + unit) \<times> hstate" where
  "process_new_message h w message st =
     (if \<not> should_forward h w message
      then (case message of None \<Rightarrow> (Inl none_has_no_id, st) | Some m \<Rightarrow> (Inr (), st))
      else
        (case message of
           None \<Rightarrow> (Inl none_has_no_id, st)
         | Some m \<Rightarrow>
             (case format_output_message h w event_new (Live m) False st of
                (formatted_text, st1) \<Rightarrow> send_message_with_media h w formatted_text m st1)))"

text \<open>\<^verbatim>\<open>_process_edited_message\<close> (lines 129-146): the same filter; the text alone is
  sent, outside any \<^verbatim>\<open>try\<close>.\<close>

definition process_edited_message ::
    "handler \<Rightarrow> world \<Rightarrow> tl_message option \<Rightarrow> hstate \<Rightarrow> (exn + unit) \<times> hstate" where
  "process_edited_message h w message st =
     (if \<not> should_forward h w message
      then (case message of None \<Rightarrow> (Inl none_has_no_id, st) | Some m \<Rightarrow> (Inr (), st))
      else
        (case message of
           None \<Rightarrow> (Inl none_has_no_id, st)
         | Some m \<Rightarrow>
             (case format_output_message h w event_edited (Live m) False st of
                (formatted_text, st1) \<Rightarrow>
                  if has_log_sender h
                  then (case send_message w formatted_text None st1 of
                          (Some e, st2) \<Rightarrow> (Inl e, st2)
                        | (None, st2) \<Rightarrow> (Inr (), st2))
                  else (Inr (), st1))))"

text \<open>The literals of \<^verbatim>\<open>_process_deleted_message\<close>.\<close>

text \<open>\<^verbatim>\<open>"\u6d88\u606f ID `"\<close>\<close>

definition message_id_label :: ustr where
  "message_id_label =
     [28040, 24687, 32, 73, 68, 32, 96]"

text \<open>\<^verbatim>\<open>" \u4e2d\u7684\u6d88\u606f ID `"\<close>\<close>

definition in_chat_message_id_label :: ustr where
  "in_chat_message_id_label =
     [32, 20013, 30340, 28040, 24687, 32, 73, 68, 32, 96]"

text \<open>\<^verbatim>\<open>"\u804a\u5929 `"\<close>\<close>

definition chat_label :: ustr where
  "chat_label =
     [32842, 22825, 32, 96]"

text \<open>\<^verbatim>\<open>"` \u4e2d\u7684\u6d88\u606f ID `"\<close>\<close>

definition chat_message_id_label :: ustr where
  "chat_message_id_label =
     [96, 32, 20013, 30340, 28040, 24687, 32, 73, 68, 32, 96]"

text \<open>\<^verbatim>\<open>"\U0001f5d1\ufe0f **\u5220\u9664\u6d88\u606f (\u5185\u5bb9\u672a\u77e5)**\n\n"\<close>\<close>

definition unknown_deletion_prefix :: ustr where
  "unknown_deletion_prefix =
     [128465, 65039, 32, 42, 42, 21024, 38500, 28040, 24687, 32, 40, 20869, 23481, 26410, 30693,
      41, 42, 42, 10, 10]"

text \<open>\<^verbatim>\<open>" \u5df2\u88ab\u5220\u9664\uff0c\u4f46\u65e0\u6cd5\u4ece\u6570\u636e\u5e93\u4e2d\u68c0\u7d22\u5230\u539f\u59cb\u5185\u5bb9\u3002"\<close>\<close>

definition unknown_deletion_suffix :: ustr where
  "unknown_deletion_suffix =
     [32, 24050, 34987, 21024, 38500, 65292, 20294, 26080, 27861, 20174, 25968, 25454, 24211,
      20013, 26816, 32034, 21040, 21407, 22987, 20869, 23481, 12290]"

text \<open>Lines 185-193: how the log names a deleted message whose content is not stored.\<close>

definition deleted_mention ::
    "handler \<Rightarrow> world \<Rightarrow> int option \<Rightarrow> int \<Rightarrow> hstate \<Rightarrow> ustr \<times> hstate" where
  "deleted_mention h w chat_id msg_id st =
     (case chat_id of
        None \<Rightarrow> (message_id_label @ str_int msg_id @ [96], st)
      | Some c \<Rightarrow>
          if c \<noteq> 0 \<and> has_client h
          then (case mention w c msg_id st of
                  (Inr chat_mention, st1) \<Rightarrow>
                    (chat_mention @ in_chat_message_id_label @ str_int msg_id @ [96], st1)
                | (Inl e, st1) \<Rightarrow>
                    (chat_label @ str_int c @ chat_message_id_label @ str_int msg_id @ [96], st1))
          else (message_id_label @ str_int msg_id @ [96], st))"

text \<open>Lines 166-199, the body of the loop for one message id. The sends are outside any
  \<^verbatim>\<open>try\<close>.\<close>

definition log_deleted_id ::
    "handler \<Rightarrow> world \<Rightarrow> int option \<Rightarrow> int \<Rightarrow> hstate \<Rightarrow> (exn + unit) \<times> hstate" where
  "log_deleted_id h w chat_id msg_id st =
     (case get_message_from_db_with_retry w msg_id chat_id st of
        (Some original_message, st1) \<Rightarrow>
          (case format_output_message h w event_deleted (Stored original_message) True st1 of
             (formatted_text, st2) \<Rightarrow>
               if has_log_sender h
               then (case send_message w formatted_text None st2 of
                       (Some e, st3) \<Rightarrow> (Inl e, st3)
                     | (None, st3) \<Rightarrow> (Inr (), st3))
               else (Inr (), st2))
      | (None, st1) \<Rightarrow>
          (case deleted_mention h w chat_id msg_id st1 of
             (mention_text, st2) \<Rightarrow>
               if has_log_sender h
               then (case send_message w
                            (unknown_deletion_prefix @ mention_text @ unknown_deletion_suffix)
                            None st2 of
                       (Some e, st3) \<Rightarrow> (Inl e, st3)
                     | (None, st3) \<Rightarrow> (Inr (), st3))
               else (Inr (), st2)))"

text \<open>The loop of line 165: an exception ends it.\<close>

fun log_deleted_ids ::
    "handler \<Rightarrow> world \<Rightarrow> int option \<Rightarrow> int list \<Rightarrow> hstate \<Rightarrow> (exn + unit) \<times> hstate" where
  "log_deleted_ids h w chat_id [] st = (Inr (), st)"
| "log_deleted_ids h w chat_id (msg_id # ids) st =
     (case log_deleted_id h w chat_id msg_id st of
        (Inl e, st1) \<Rightarrow> (Inl e, st1)
      | (Inr u, st1) \<Rightarrow> log_deleted_ids h w chat_id ids st1)"

text \<open>\<^verbatim>\<open>_process_deleted_message\<close> (lines 149-199): the filter, then the rate limiter,
  then the loop, which is given the event's own chat id. An exception of the filter
  (line 151) leaves the handler before the rate limiter is asked.\<close>

definition process_deleted_message ::
    "handler \<Rightarrow> world \<Rightarrow> deleted_event \<Rightarrow> hstate \<Rightarrow> (exn + unit) \<times> hstate" where
  "process_deleted_message h w ev st =
     (case should_log_deletion h ev of
        Inl e \<Rightarrow> (Inl e, st)
      | Inr should_log \<Rightarrow>
          if \<not> should_log then (Inr (), st)
          else
            (case apply_deletion_rate_limit h w st of
               (g, st1) \<Rightarrow>
                 if \<not> allowed g then (Inr (), st1)
                 else log_deleted_ids h w (del_chat_id ev) (deleted_ids ev) st1))"

text \<open>The \<^verbatim>\<open>isinstance\<close> tests of lines 95-99. In Telethon
  \<^verbatim>\<open>MessageEdited.Event\<close> is a subclass of \<^verbatim>\<open>NewMessage.Event\<close>, so an edit event is an
  instance of both; \<^verbatim>\<open>MessageDeleted.Event\<close> is a subclass of neither.\<close>

fun isinstance_new_message :: "event \<Rightarrow> bool" where
  "isinstance_new_message (NewMessage message) = True"
| "isinstance_new_message (MessageEdited message) = True"
| "isinstance_new_message ev = False"

fun isinstance_message_edited :: "event \<Rightarrow> bool" where
  "isinstance_message_edited (MessageEdited message) = True"
| "isinstance_message_edited ev = False"

text \<open>\<^verbatim>\<open>event.message\<close> of a message event.\<close>

fun event_message :: "event \<Rightarrow> tl_message option" where
  "event_message (NewMessage message) = message"
| "event_message (MessageEdited message) = message"
| "event_message ev = None"

text \<open>Lines 95-103: the dispatch on the type of the event, the tests in the order of the
  source. The first test holds of every edit event, so edits are handled by
  \<^verbatim>\<open>_process_new_message\<close> and the second branch is never taken.\<close>

definition dispatch :: "handler \<Rightarrow> world \<Rightarrow> event \<Rightarrow> hstate \<Rightarrow> (exn + unit) \<times> hstate" where
  "dispatch h w ev st =
     (if isinstance_new_message ev then process_new_message h w (event_message ev) st
      else if isinstance_message_edited ev then process_edited_message h w (event_message ev) st
      else
        (case ev of
           MessageDeleted d \<Rightarrow> process_deleted_message h w d st
         | _ \<Rightarrow> (Inr (), st)))"

text \<open>\<^verbatim>\<open>process\<close> (lines 84-113): nothing is done before the helpers are set; an
  exception of the dispatch is logged, by code that reads attributes with defaults only,
  and \<^verbatim>\<open>None\<close> is returned.\<close>

definition process :: "handler \<Rightarrow> world \<Rightarrow> event \<Rightarrow> hstate \<Rightarrow> (exn + unit) \<times> hstate" where
  "process h w ev st =
     (if \<not> has_client h \<or> \<not> has_log_sender h \<or> \<not> has_formatter h
         \<or> \<not> has_restricted_media_handler h
      then (Inr (), st)
      else
        (case dispatch h w ev st of
           (Inl e, st1) \<Rightarrow> (Inr (), st1)
         | (Inr u, st1) \<Rightarrow> (Inr (), st1)))"

subsection \<open>Observing a run\<close>

text \<open>What a call added to the trace, and the kinds of action the properties below count:
  sends to the log channel, readings of the clock (one per run of the rate limiter, and
  nowhere else), reads of the database, and the send of one given text without a file.\<close>

definition added :: "hstate \<Rightarrow> hstate \<Rightarrow> trace" where
  "added st st' = drop (length (trace st)) (trace st')"

fun is_send :: "action \<Rightarrow> bool" where
  "is_send (SendMessage t f r) = True"
| "is_send (SendFile p c x r) = True"
| "is_send a = False"

fun is_gate_check :: "action \<Rightarrow> bool" where
  "is_gate_check (ClockNow t) = True"
| "is_gate_check a = False"

fun is_db_read :: "action \<Rightarrow> bool" where
  "is_db_read (DbRead i r) = True"
| "is_db_read a = False"

fun is_text_send :: "ustr \<Rightarrow> action \<Rightarrow> bool" where
  "is_text_send t (SendMessage t' f r) = (t' = t \<and> f = None)"
| "is_text_send t a = False"

text \<open>A dynamic fetch: a call of \<^verbatim>\<open>prepare_media\<close> of the restricted media handler.\<close>

fun is_fetch :: "action \<Rightarrow> bool" where
  "is_fetch (PrepareMedia m r) = True"
| "is_fetch a = False"

definition no_fetch :: "action \<Rightarrow> bool" where
  "no_fetch a = (\<not> is_fetch a)"

text \<open>A sticker as Telethon delivers it: the media object has no \<^verbatim>\<open>attributes\<close> of its
  own, and the sticker attribute is among those of its document.\<close>

definition telethon_sticker :: "media \<Rightarrow> bool" where
  "telethon_sticker md =
     (media_attributes md = None \<and>
      (case media_document_attributes md of
         None \<Rightarrow> False
       | Some as \<Rightarrow> list_ex (\<lambda>a. a = DocumentAttributeSticker) as))"

definition sends :: "hstate \<Rightarrow> hstate \<Rightarrow> action list" where
  "sends st st' = filter is_send (added st st')"

text \<open>The four helpers are set; \<^verbatim>\<open>set_client\<close> sets the last three together.\<close>

definition helpers_ready :: "handler \<Rightarrow> bool" where
  "helpers_ready h =
     (has_client h \<and> has_log_sender h \<and> has_formatter h \<and> has_restricted_media_handler h)"

text \<open>A sequence of calls of the rate limiter at the given readings of the clock, with the
  way each call returned.\<close>

fun run_limiter :: "handler \<Rightarrow> world \<Rightarrow> time list \<Rightarrow> hstate \<Rightarrow> gate list \<times> hstate" where
  "run_limiter h w [] st = ([], st)"
| "run_limiter h w (now # nows) st =
     (case rate_limit_at h w now st of
        (g, st1) \<Rightarrow> (case run_limiter h w nows st1 of (gs, st2) \<Rightarrow> (g # gs, st2)))"

text \<open>The invariant of the rate limiter when the pause is at least as long as the window
  and the clock does not go back: every recorded timestamp is at most the last reading
  \<open>b\<close>; outside a pause at most \<open>threshold\<close> timestamps are recorded, inside a pause
  at most one more, all of them from before the pause began.\<close>

definition limiter_inv :: "handler \<Rightarrow> time \<Rightarrow> hstate \<Rightarrow> bool" where
  "limiter_inv h b st =
     (list_all (\<lambda>t. t \<le> b) (deletion_timestamps st) \<and>
      (case rate_limit_paused_until st of
         None \<Rightarrow> int (length (deletion_timestamps st)) \<le> deletion_rate_limit_threshold h
       | Some p \<Rightarrow>
           int (length (deletion_timestamps st)) \<le> deletion_rate_limit_threshold h + 1 \<and>
           list_all (\<lambda>t. t + deletion_pause_duration h \<le> p) (deletion_timestamps st)))"

text \<open>The trace of \<open>st'\<close> extends that of \<open>st\<close> by actions that all satisfy \<open>P\<close>.\<close>

definition grows :: "(action \<Rightarrow> bool) \<Rightarrow> hstate \<Rightarrow> hstate \<Rightarrow> bool" where
  "grows P st st' = (\<exists>tr. trace st' = trace st @ tr \<and> list_all P tr)"

text \<open>Kinds of action: any at all; none that reads the clock; none that reads the clock
  or sends.\<close>

definition any_action :: "action \<Rightarrow> bool" where
  "any_action a = True"

definition no_gate :: "action \<Rightarrow> bool" where
  "no_gate a = (\<not> is_gate_check a)"

definition quiet :: "action \<Rightarrow> bool" where
  "quiet a = (\<not> is_gate_check a \<and> \<not> is_send a)"

text \<open>Between \<open>st\<close> and \<open>st'\<close> a send to the log channel was attempted.\<close>

definition sent :: "hstate \<Rightarrow> hstate \<Rightarrow> bool" where
  "sent st st' = (\<exists>tr. trace st' = trace st @ tr \<and> list_ex is_send tr)"

subsection \<open>Examples\<close>

text \<open>The state of a handler that has processed nothing.\<close>

definition initial_state :: hstate where
  "initial_state = \<lparr>deletion_timestamps = [], rate_limit_paused_until = None, trace = []\<rparr>"

text \<open>A handler with the default rate limit of \<^verbatim>\<open>__init__\<close> (5 events in 10 seconds, a
  pause of 5 seconds), one ignored id, one forwarded user and one forwarded group.\<close>

definition example_handler :: handler where
  "example_handler =
     \<lparr>log_chat_id = - 1002268819123,
      ignored_ids = {- 10000},
      forward_user_ids = {7},
      forward_group_ids = {- 1001234567890},
      deletion_rate_limit_threshold = 5,
      deletion_rate_limit_window = 10000000,
      deletion_pause_duration = 5000000,
      has_client = True,
      has_log_sender = True,
      has_formatter = True,
      has_restricted_media_handler = True\<rparr>"

text \<open>A handler whose pause is as long as its window.\<close>

definition long_pause_handler :: handler where
  "long_pause_handler =
     example_handler\<lparr>deletion_rate_limit_threshold := 1, deletion_pause_duration := 10000000\<rparr>"

text \<open>A world in which every call succeeds: an empty database, no media to fetch, the
  sender of a message taken to be its chat.\<close>

definition example_world :: world where
  "example_world =
     \<lparr>clock = (\<lambda>tr. 0),
      db_get_message_by_id = (\<lambda>tr i. Inr None),
      log_send_message = (\<lambda>tr t f. None),
      client_send_file = (\<lambda>tr p c r. None),
      create_mention = (\<lambda>tr e i. Inr (str_int e)),
      retrieve_media_as_file = (\<lambda>tr p r. None),
      context_enter = (\<lambda>tr. Inr [102]),
      context_exit = (\<lambda>tr. None),
      prepare_media = (\<lambda>tr m. Inr None),
      prepare_media_exit = (\<lambda>tr. None),
      get_sender_id = (\<lambda>m. case tl_chat_id m of None \<Rightarrow> 0 | Some c \<Rightarrow> c),
      str_total_seconds = (\<lambda>t. str_int (t div 1000000)),
      strftime_utc = (\<lambda>t. str_int t)\<rparr>"

text \<open>A private incoming message from user 7, without media.\<close>

definition example_message :: tl_message where
  "example_message =
     \<lparr>tl_id = 1, tl_chat_id = Some 7, tl_text = Some [104, 105], tl_date = None,
      tl_edit_date = None, tl_reply_to_msg_id = None, tl_is_private = True,
      tl_is_group = False, tl_out = False, tl_media = None, tl_noforwards = False\<rparr>"

text \<open>The media of a sticker as Telethon delivers it, a \<^verbatim>\<open>MessageMediaDocument\<close> whose
  document carries the sticker attribute, and a message in the forwarded group with that
  media.\<close>

definition sticker_media :: media where
  "sticker_media =
     \<lparr>media_class_name =
        [77, 101, 115, 115, 97, 103, 101, 77, 101, 100, 105, 97, 68, 111, 99, 117, 109, 101,
         110, 116],
      media_attributes = None,
      media_document_attributes = Some [DocumentAttributeSticker]\<rparr>"

definition example_sticker :: tl_message where
  "example_sticker =
     example_message\<lparr>tl_id := 2, tl_chat_id := Some (- 1001234567890), tl_text := None,
       tl_is_private := False, tl_is_group := True, tl_media := Some sticker_media\<rparr>"

text \<open>The stored record of that sticker, and a world in which the record is found, the
  stored file is missing, and the media is there to be fetched afresh.\<close>

definition stored_sticker :: db_message where
  "stored_sticker =
     \<lparr>db_id = 2, db_chat_id = Some (- 1001234567890), db_from_id = 7, db_text = Some [],
      db_date = None, db_edit_date = None, db_reply_to_msg_id = None, db_is_private = False,
      db_media_type = None, db_media_path = Some [112], db_is_restricted = False\<rparr>"

definition missing_file_world :: world where
  "missing_file_world =
     example_world\<lparr>db_get_message_by_id := (\<lambda>tr i. Inr (Some stored_sticker)),
       retrieve_media_as_file := (\<lambda>tr p r. Some (FileNotFoundError p)),
       prepare_media := (\<lambda>tr m. Inr (Some [113]))\<rparr>"

text \<open>A world whose database holds the record only from the second read on.\<close>

definition late_write_world :: world where
  "late_write_world =
     example_world\<lparr>db_get_message_by_id :=
       (\<lambda>tr i. if tr = [] then Inr None else Inr (Some stored_sticker))\<rparr>"

text \<open>A world in which every send to the log channel fails.\<close>

definition failing_send_world :: world where
  "failing_send_world =
     example_world\<lparr>log_send_message := (\<lambda>tr t f. Some (OtherException [] []))\<rparr>"

text \<open>Deletion events as Telethon delivers them: of two messages in the forwarded group,
  and of the same in an ignored chat.\<close>

definition example_deletion :: deleted_event where
  "example_deletion =
     \<lparr>deleted_ids = [11, 12], del_chat_id = Some (- 1001234567890),
      del_peer = NoPeerAttribute\<rparr>"

definition ignored_deletion :: deleted_event where
  "ignored_deletion =
     \<lparr>deleted_ids = [11, 12], del_chat_id = Some (- 10000), del_peer = NoPeerAttribute\<rparr>"

text \<open>The deletion of the same two messages as Telegram reports it for a private chat or
  a small group: without a chat id.\<close>

definition unknown_chat_deletion :: deleted_event where
  "unknown_chat_deletion =
     \<lparr>deleted_ids = [11, 12], del_chat_id = None, del_peer = NoPeerAttribute\<rparr>"

text \<open>The private message of user 7 with a text of 3501 letters.\<close>

definition long_message :: tl_message where
  "long_message = example_message\<lparr>tl_text := Some (replicate 3501 97)\<rparr>"

text \<open>The stored record of a private message of user 7 with the same text.\<close>

definition long_stored_message :: db_message where
  "long_stored_message =
     \<lparr>db_id = 1, db_chat_id = Some 7, db_from_id = 7, db_text = Some (replicate 3501 97),
      db_date = None, db_edit_date = None, db_reply_to_msg_id = None, db_is_private = True,
      db_media_type = None, db_media_path = None, db_is_restricted = False\<rparr>"

text \<open>Six deletion events within half a second, in microseconds.\<close>

definition burst :: "time list" where
  "burst = [4000000, 4100000, 4200000, 4300000, 4400000, 4500000]"

text \<open>A state inside a pause that lasts until second 9.\<close>

definition paused_state :: hstate where
  "paused_state = initial_state\<lparr>rate_limit_paused_until := Some 9000000\<rparr>"

section \<open>Properties\<close>

subsection \<open>Traces only grow\<close>

lemma trace_emit [simp]: "trace (emit a st) = trace st @ [a]"
  by (simp add: emit_def)

lemma limiter_emit [simp]:
  "deletion_timestamps (emit a st) = deletion_timestamps st"
  "rate_limit_paused_until (emit a st) = rate_limit_paused_until st"
  by (simp_all add: emit_def)

lemma grows_refl [simp]: "grows P st st"
  by (simp add: grows_def)

lemma grows_trans: "grows P st st1 \<Longrightarrow> grows P st1 st2 \<Longrightarrow> grows P st st2"
  by (auto simp: grows_def)

lemma grows_emit: "grows P st st1 \<Longrightarrow> P a \<Longrightarrow> grows P st (emit a st1)"
  by (auto simp: grows_def)

lemma grows_weaken: "grows P st st' \<Longrightarrow> (\<And>a. P a \<Longrightarrow> Q a) \<Longrightarrow> grows Q st st'"
  by (auto simp: grows_def list_all_iff)

lemma added_eq: "trace st' = trace st @ tr \<Longrightarrow> added st st' = tr"
  by (simp add: added_def)

lemma added_same [simp]: "added st st = []"
  by (simp add: added_def)

lemma sends_same [simp]: "sends st st = []"
  by (simp add: sends_def)

lemma grows_send_message:
  "grows P st st1 \<Longrightarrow> (\<And>r. P (SendMessage t f r)) \<Longrightarrow> grows P st (snd (send_message w t f st1))"
  by (simp add: send_message_def Let_def grows_emit)

lemma grows_mention:
  "grows P st st1 \<Longrightarrow> (\<And>r. P (CreateMention e i r)) \<Longrightarrow> grows P st (snd (mention w e i st1))"
  by (simp add: mention_def Let_def grows_emit)

lemma grows_get_message_by_id:
  "grows P st st1 \<Longrightarrow> (\<And>r. P (DbRead i r)) \<Longrightarrow> grows P st (snd (get_message_by_id w i st1))"
  by (simp add: get_message_by_id_def Let_def grows_emit)

lemma quiet_no_gate: "grows quiet st st' \<Longrightarrow> grows no_gate st st'"
  by (erule grows_weaken) (simp add: quiet_def no_gate_def)

lemma any_emit: "grows any_action st st1 \<Longrightarrow> grows any_action st (emit a st1)"
  by (rule grows_emit) (simp_all add: any_action_def)

lemma sent_grows: "sent st st' \<Longrightarrow> grows any_action st st'"
  by (auto simp: sent_def grows_def any_action_def list_all_iff)

lemma sent_after: "grows P st st1 \<Longrightarrow> sent st1 st2 \<Longrightarrow> sent st st2"
  by (auto simp: sent_def grows_def)

lemma sent_before: "sent st st1 \<Longrightarrow> grows P st1 st2 \<Longrightarrow> sent st st2"
  by (auto simp: sent_def grows_def)

lemma sent_emit: "grows P st st1 \<Longrightarrow> is_send a \<Longrightarrow> sent st (emit a st1)"
  by (auto simp: sent_def grows_def)

lemma sent_send_message: "grows P st st1 \<Longrightarrow> sent st (snd (send_message w t f st1))"
  by (simp add: send_message_def Let_def sent_emit)

lemma sent_send_file: "grows P st st1 \<Longrightarrow> sent st (snd (send_file w p c x st1))"
  by (simp add: send_file_def Let_def sent_emit)

lemma sent_sends: "sent st st' \<Longrightarrow> sends st st' \<noteq> []"
  by (auto simp: sent_def sends_def added_def filter_empty_conv list_ex_iff)

lemma quiet_sends: "grows quiet st st' \<Longrightarrow> sends st st' = []"
  by (auto simp: grows_def sends_def added_def filter_empty_conv list_all_iff quiet_def)

lemma via_send_file: "sent s (snd (send_file w p c x s))"
  by (rule sent_send_file [where P = any_action]) simp



subsection \<open>The examples\<close>

lemma example_helpers_ready: "helpers_ready example_handler"
  by (simp add: helpers_ready_def example_handler_def)

lemma example_message_forwarded:
  "should_forward example_handler example_world (Some example_message)"
  by (simp add: should_forward_def example_handler_def example_world_def example_message_def)


subsection \<open>The deletion filter\<close>

text \<open>An event that carries its chat id, as the deletions in channels and supergroups do:
  it is logged exactly when the id is not ignored and is a forwarded group. The chat id 0,
  which Python takes for false and no Telegram peer has, is in neither test.\<close>

lemma known_chat_deletion_rule:
  assumes "del_chat_id ev = Some c" and "c \<noteq> 0"
  shows "should_log_deletion h ev = Inr (c \<notin> ignored_ids h \<and> c \<in> forward_group_ids h)"
  using assms by (auto simp: should_log_deletion_def resolve_chat_id_def)

lemma zero_chat_deletion_not_logged:
  assumes "del_chat_id ev = Some 0"
  shows "should_log_deletion h ev = Inr False"
  using assms by (simp add: should_log_deletion_def resolve_chat_id_def)

text \<open>Once a chat id has been resolved, or resolved to \<^verbatim>\<open>None\<close>, the rules are those of
  lines 253-271, with the default of line 267 for \<^verbatim>\<open>None\<close>. Resolving to \<^verbatim>\<open>None\<close> takes an
  object with an attribute \<^verbatim>\<open>peer\<close>.\<close>

lemma resolved_deletion_rule:
  assumes "resolve_chat_id ev = Inr c" and "c \<noteq> Some 0"
  shows "should_log_deletion h ev =
     Inr (case c of None \<Rightarrow> True | Some x \<Rightarrow> x \<notin> ignored_ids h \<and> x \<in> forward_group_ids h)"
  using assms by (cases c) (auto simp: should_log_deletion_def)

lemma unknown_chat_reaches_default:
  "should_log_deletion h (ev\<lparr>del_chat_id := None, del_peer := PeerAttribute None\<rparr>) = Inr True"
  by (simp add: should_log_deletion_def resolve_chat_id_def)

text \<open>
  Claim C5. The rules for an ignored chat, for a forwarded group and for any other known
  chat hold (\<open>known_chat_deletion_rule\<close>). The default for an unknown chat does not: the code
  means to log such an event (line 267 returns \<^verbatim>\<open>True\<close>, and the comment of line 263 says
  so), but an event without a chat id never gets there. Line 245 reads \<^verbatim>\<open>event.peer\<close>,
  an attribute that no deletion event of Telethon has, so the filter raises
  \<^verbatim>\<open>AttributeError\<close>; the handler raises with it, before the rate limiter is asked, and
  \<^verbatim>\<open>process\<close> catches the exception: the state is as before, nothing was looked up and
  nothing was sent.
\<close>

theorem unknown_chat_deletion_raises:
  assumes "del_chat_id ev = None" and "del_peer ev = NoPeerAttribute"
  shows "should_log_deletion h ev = Inl no_peer_attribute \<and>
         process_deleted_message h w ev st = (Inl no_peer_attribute, st) \<and>
         process h w (MessageDeleted ev) st = (Inr (), st)"
  using assms
  by (simp add: should_log_deletion_def resolve_chat_id_def process_deleted_message_def
        process_def dispatch_def)

text \<open>The deletion of messages 11 and 12, reported without a chat id: the filter raises,
  and nothing is logged. The same deletion reported from the forwarded group is accepted,
  and from the ignored chat rejected.\<close>

theorem unknown_chat_deletion_raises_witness:
  "deleted_ids unknown_chat_deletion = [11, 12] \<and>
   del_chat_id unknown_chat_deletion = None \<and>
   del_peer unknown_chat_deletion = NoPeerAttribute \<and>
   should_log_deletion example_handler unknown_chat_deletion =
     Inl (AttributeError
        [39, 69, 118, 101, 110, 116, 39, 32, 111, 98, 106, 101, 99, 116, 32, 104, 97,
         115, 32, 110, 111, 32, 97, 116, 116, 114, 105, 98, 117, 116, 101, 32, 39, 112,
         101, 101, 114, 39]) \<and>
   process example_handler example_world (MessageDeleted unknown_chat_deletion) initial_state =
     (Inr (), initial_state) \<and>
   sends initial_state
     (snd (process example_handler example_world (MessageDeleted unknown_chat_deletion)
        initial_state)) = [] \<and>
   should_log_deletion example_handler example_deletion = Inr True \<and>
   should_log_deletion example_handler ignored_deletion = Inr False"
proof -
  have a: "del_chat_id unknown_chat_deletion = None"
    "del_peer unknown_chat_deletion = NoPeerAttribute"
    "deleted_ids unknown_chat_deletion = [11, 12]"
    by (simp_all add: unknown_chat_deletion_def)
  have b: "should_log_deletion example_handler example_deletion = Inr True"
    "should_log_deletion example_handler ignored_deletion = Inr False"
    by (simp_all add: should_log_deletion_def resolve_chat_id_def example_deletion_def
          ignored_deletion_def example_handler_def)
  from unknown_chat_deletion_raises [OF a(1,2), of example_handler example_world initial_state]
    a b
  show ?thesis by (simp add: no_peer_attribute_def)
qed

subsection \<open>Outgoing private messages\<close>

text \<open>
  Claim C10. A private message marked as outgoing is not forwarded by the user rule, even
  when its sender is a forwarded user and is not ignored: if the message is forwarded at
  all, it is by the group rule, and a message that is not a group message is not
  forwarded.
\<close>

theorem outgoing_private_not_forwarded:
  assumes "tl_is_private m" and "tl_out m"
    and "get_sender_id w m \<in> forward_user_ids h" and "get_sender_id w m \<notin> ignored_ids h"
  shows "(\<not> tl_is_group m \<longrightarrow> \<not> should_forward h w (Some m)) \<and>
         (should_forward h w (Some m) \<longrightarrow>
            tl_is_group m \<and> in_ids (tl_chat_id m) (forward_group_ids h))"
  using assms by (auto simp: should_forward_def Let_def split: if_splits)

text \<open>The example message is forwarded as it comes in, and not when marked outgoing.\<close>

theorem outgoing_private_not_forwarded_witness:
  "tl_is_private (example_message\<lparr>tl_out := True\<rparr>) \<and> tl_out (example_message\<lparr>tl_out := True\<rparr>) \<and>
   get_sender_id example_world (example_message\<lparr>tl_out := True\<rparr>) \<in> forward_user_ids example_handler \<and>
   get_sender_id example_world (example_message\<lparr>tl_out := True\<rparr>) \<notin> ignored_ids example_handler \<and>
   \<not> tl_is_group (example_message\<lparr>tl_out := True\<rparr>) \<and>
   \<not> should_forward example_handler example_world (Some (example_message\<lparr>tl_out := True\<rparr>)) \<and>
   should_forward example_handler example_world (Some example_message)"
proof -
  have a: "tl_is_private (example_message\<lparr>tl_out := True\<rparr>)" "tl_out (example_message\<lparr>tl_out := True\<rparr>)"
    "get_sender_id example_world (example_message\<lparr>tl_out := True\<rparr>) \<in> forward_user_ids example_handler"
    "get_sender_id example_world (example_message\<lparr>tl_out := True\<rparr>) \<notin> ignored_ids example_handler"
    "\<not> tl_is_group (example_message\<lparr>tl_out := True\<rparr>)"
    by (simp_all add: example_message_def example_world_def example_handler_def)
  from outgoing_private_not_forwarded [OF a(1-4)] a example_message_forwarded
  show ?thesis by simp
qed

subsection \<open>The retrying lookup\<close>

lemma lookup_first_found:
  assumes "db_get_message_by_id w (trace st) i = Inr (Some m)"
  shows "get_message_from_db_with_retry w i c st =
           (if chat_matches c m then Some m else None, emit (DbRead i (Inr (Some m))) st)"
  using assms by (simp add: get_message_from_db_with_retry_def get_message_by_id_def Let_def)

lemma lookup_first_raises:
  assumes "db_get_message_by_id w (trace st) i = Inl e"
  shows "get_message_from_db_with_retry w i c st = (None, emit (DbRead i (Inl e)) st)"
  using assms by (simp add: get_message_from_db_with_retry_def get_message_by_id_def Let_def)

lemma lookup_first_absent:
  assumes "db_get_message_by_id w (trace st) i = Inr None"
  shows "get_message_from_db_with_retry w i c st =
           (let st2 = emit (Sleep retry_delay) (emit (DbRead i (Inr None)) st);
                r2 = db_get_message_by_id w (trace st2) i
            in (case r2 of
                  Inr (Some m) \<Rightarrow> if chat_matches c m then Some m else None
                | Inr None \<Rightarrow> None
                | Inl e \<Rightarrow> None,
                emit (DbRead i r2) st2))"
  using assms
  by (simp add: get_message_from_db_with_retry_def get_message_by_id_def asyncio_sleep_def Let_def
           split: sum.splits option.splits)

text \<open>
  Claim C6. The lookup reads the database at most twice. When the first read finds a
  record, it returns at once: the record if the chat id matches (or none was given),
  nothing if it does not. When the first read finds no record, the lookup waits the
  fixed delay and reads once more; it returns the record of the second read if its chat
  id matches, and nothing if the record is still absent, does not match, or the read
  fails. Whatever the database answers, a record that is returned matches the chat id
  given.
\<close>

theorem retrying_lookup:
  "(\<forall>m. db_get_message_by_id w (trace st) i = Inr (Some m) \<longrightarrow>
        get_message_from_db_with_retry w i c st =
          (if chat_matches c m then Some m else None, emit (DbRead i (Inr (Some m))) st)) \<and>
   (db_get_message_by_id w (trace st) i = Inr None \<longrightarrow>
        (\<exists>r2. added st (snd (get_message_from_db_with_retry w i c st)) =
                 [DbRead i (Inr None), Sleep retry_delay, DbRead i r2] \<and>
              r2 = db_get_message_by_id w (trace st @ [DbRead i (Inr None), Sleep retry_delay]) i \<and>
              fst (get_message_from_db_with_retry w i c st) =
                (case r2 of
                   Inr (Some m) \<Rightarrow> if chat_matches c m then Some m else None
                 | Inr None \<Rightarrow> None
                 | Inl e \<Rightarrow> None))) \<and>
   length (filter is_db_read (added st (snd (get_message_from_db_with_retry w i c st)))) \<le> 2 \<and>
   (\<forall>m. fst (get_message_from_db_with_retry w i c st) = Some m \<longrightarrow> chat_matches c m)"
proof (cases "db_get_message_by_id w (trace st) i")
  case (Inl e)
  then show ?thesis
    by (simp add: lookup_first_raises added_def)
next
  case (Inr r)
  show ?thesis
  proof (cases r)
    case None
    with Inr have a: "db_get_message_by_id w (trace st) i = Inr None" by simp
    show ?thesis
      by (simp add: a lookup_first_absent added_def Let_def split: sum.splits option.splits)
  next
    case (Some m)
    with Inr have a: "db_get_message_by_id w (trace st) i = Inr (Some m)" by simp
    show ?thesis
      by (simp add: a lookup_first_found added_def)
  qed
qed

text \<open>A record written between the two reads is found by the second, after the delay of
  half a second; it is not returned for another chat; in an empty database nothing is
  found after two reads.\<close>

theorem retrying_lookup_witness:
  "db_get_message_by_id late_write_world (trace initial_state) 2 = Inr None \<and>
   get_message_from_db_with_retry late_write_world 2 (Some (- 1001234567890)) initial_state =
     (Some stored_sticker,
      initial_state\<lparr>trace := [DbRead 2 (Inr None), Sleep 500, DbRead 2 (Inr (Some stored_sticker))]\<rparr>) \<and>
   \<not> chat_matches (Some 5) stored_sticker \<and>
   fst (get_message_from_db_with_retry late_write_world 2 (Some 5) initial_state) = None \<and>
   get_message_from_db_with_retry example_world 2 None initial_state =
     (None, initial_state\<lparr>trace := [DbRead 2 (Inr None), Sleep 500, DbRead 2 (Inr None)]\<rparr>)"
  using retrying_lookup [of late_write_world initial_state 2 "Some (- 1001234567890)"]
    retrying_lookup [of late_write_world initial_state 2 "Some 5"]
    retrying_lookup [of example_world initial_state 2 None]
  by (simp add: get_message_from_db_with_retry_def get_message_by_id_def asyncio_sleep_def
        emit_def Let_def late_write_world_def example_world_def initial_state_def
        chat_matches_def stored_sticker_def retry_delay_def)

subsection \<open>The rate limiter\<close>

lemma length_evict: "length (evict c ts) \<le> length ts"
  by (induction ts) auto

lemma set_evict: "set (evict c ts) \<subseteq> set ts"
  by (induction ts) auto

lemma evict_all: "\<forall>t \<in> set ts. t \<le> c \<Longrightarrow> evict c ts = []"
  by (induction ts) auto

lemma send_message_limiter [simp]:
  "deletion_timestamps (snd (send_message w t f st)) = deletion_timestamps st"
  "rate_limit_paused_until (snd (send_message w t f st)) = rate_limit_paused_until st"
  by (simp_all add: send_message_def Let_def)

lemma limiter_inv_step:
  assumes "0 \<le> deletion_rate_limit_threshold h"
    and "deletion_rate_limit_window h \<le> deletion_pause_duration h"
    and "limiter_inv h b st" and "b \<le> now"
    and "rate_limit_at h w now st = (g, st')"
  shows "limiter_inv h now st'"
proof (cases "rate_limit_paused_until st")
  case None
  let ?E = "evict (now - deletion_rate_limit_window h) (deletion_timestamps st)"
  from assms(3) None
  have le: "int (length (deletion_timestamps st)) \<le> deletion_rate_limit_threshold h"
    and bd: "\<forall>t \<in> set (deletion_timestamps st). t \<le> b"
    by (simp_all add: limiter_inv_def list_all_iff)
  from le length_evict [of "now - deletion_rate_limit_window h" "deletion_timestamps st"]
  have len: "int (length ?E) \<le> deletion_rate_limit_threshold h" by linarith
  from bd assms(4) set_evict [of "now - deletion_rate_limit_window h" "deletion_timestamps st"]
  have bdE: "\<forall>t \<in> set ?E. t \<le> now" by fastforce
  show ?thesis
    using assms(5) None len bdE
    by (auto simp: rate_limit_at_def limiter_inv_def list_all_iff Let_def split: if_splits)
next
  case (Some p)
  from assms(3) Some
  have bd: "\<forall>t \<in> set (deletion_timestamps st). t \<le> b"
    and pd: "\<forall>t \<in> set (deletion_timestamps st). t + deletion_pause_duration h \<le> p"
    by (simp_all add: limiter_inv_def list_all_iff)
  show ?thesis
  proof (cases "now < p")
    case True
    with assms(5) Some have "st' = st" by (simp add: rate_limit_at_def)
    with assms(3,4) show ?thesis
      by (auto simp: limiter_inv_def list_all_iff split: option.splits)
  next
    case False
    with pd assms(2)
    have "\<forall>t \<in> set (deletion_timestamps st). t \<le> now - deletion_rate_limit_window h"
      by fastforce
    then have ev: "evict (now - deletion_rate_limit_window h) (deletion_timestamps st) = []"
      by (rule evict_all)
    show ?thesis
      using assms(5) Some False ev assms(1)
      by (auto simp: rate_limit_at_def limiter_inv_def list_all_iff Let_def split: if_splits)
  qed
qed

lemma limiter_inv_run:
  assumes "0 \<le> deletion_rate_limit_threshold h"
    and "deletion_rate_limit_window h \<le> deletion_pause_duration h"
  shows "limiter_inv h b st \<Longrightarrow> sorted (b # nows @ [c]) \<Longrightarrow>
         limiter_inv h c (snd (run_limiter h w nows st))"
proof (induction nows arbitrary: b st)
  case Nil
  then show ?case by (auto simp: limiter_inv_def list_all_iff)
next
  case (Cons now nows)
  obtain g st1 where step: "rate_limit_at h w now st = (g, st1)"
    by (cases "rate_limit_at h w now st")
  from Cons.prems have "b \<le> now" by simp
  have "limiter_inv h now st1"
    by (rule limiter_inv_step [OF assms Cons.prems(1) \<open>b \<le> now\<close> step])
  moreover from Cons.prems have "sorted (now # nows @ [c])" by simp
  ultimately have "limiter_inv h c (snd (run_limiter h w nows st1))"
    by (rule Cons.IH)
  then show ?case using step by (cases "run_limiter h w nows st1") simp
qed

text \<open>
  Claim C2, as amended. Let the threshold be at least 0 and the pause at least as long as
  the window, and let the limiter start with no timestamps and no pause. Then after every
  sequence of calls at times that do not go back, whenever a call sets the pause (step 5),
  the recorded sequence holds at most threshold + 1 timestamps right after it.
\<close>

theorem timestamps_bounded_after_trigger:
  assumes "0 \<le> deletion_rate_limit_threshold h"
    and "deletion_rate_limit_window h \<le> deletion_pause_duration h"
    and "sorted (nows @ [now])"
    and "deletion_timestamps st = []" and "rate_limit_paused_until st = None"
    and "rate_limit_at h w now (snd (run_limiter h w nows st)) = (Triggered, st')"
  shows "int (length (deletion_timestamps st')) \<le> deletion_rate_limit_threshold h + 1"
proof -
  define b where "b = (if nows = [] then now else hd nows)"
  have i0: "limiter_inv h b st"
    using assms(1,4,5) by (simp add: limiter_inv_def)
  have "sorted (b # nows @ [now])"
    using assms(3) by (cases nows) (auto simp: b_def)
  with i0 have "limiter_inv h now (snd (run_limiter h w nows st))"
    by (rule limiter_inv_run [OF assms(1,2)])
  then have "limiter_inv h now st'"
    by (rule limiter_inv_step [OF assms(1,2) _ order_refl assms(6)])
  moreover have "rate_limit_paused_until st' \<noteq> None"
    using assms(6) by (auto simp: rate_limit_at_def Let_def split: option.splits if_splits)
  ultimately show ?thesis
    by (auto simp: limiter_inv_def)
qed

lemma long_pause_run:
  "run_limiter long_pause_handler example_world [0] initial_state =
     ([Admitted], initial_state\<lparr>deletion_timestamps := [0]\<rparr>)"
  by (simp add: rate_limit_at_def long_pause_handler_def example_handler_def initial_state_def Let_def)

text \<open>With a threshold of 1 and a pause as long as the window, the second of two calls one
  second apart sets the pause, and two timestamps are recorded.\<close>

theorem timestamps_bounded_after_trigger_witness:
  "0 \<le> deletion_rate_limit_threshold long_pause_handler \<and>
   deletion_rate_limit_window long_pause_handler \<le> deletion_pause_duration long_pause_handler \<and>
   sorted ([0] @ [1000000 :: int]) \<and>
   fst (rate_limit_at long_pause_handler example_world 1000000
          (snd (run_limiter long_pause_handler example_world [0] initial_state))) = Triggered \<and>
   length (deletion_timestamps (snd (rate_limit_at long_pause_handler example_world 1000000
          (snd (run_limiter long_pause_handler example_world [0] initial_state))))) = 2"
proof -
  let ?st = "snd (run_limiter long_pause_handler example_world [0] initial_state)"
  obtain st' where r: "rate_limit_at long_pause_handler example_world 1000000 ?st = (Triggered, st')"
    and l: "length (deletion_timestamps st') = 2"
    by (simp add: long_pause_run rate_limit_at_def long_pause_handler_def example_handler_def
          initial_state_def Let_def)
  have c: "0 \<le> deletion_rate_limit_threshold long_pause_handler"
    "deletion_rate_limit_window long_pause_handler \<le> deletion_pause_duration long_pause_handler"
    "sorted ([0] @ [1000000 :: int])"
    "deletion_timestamps initial_state = []" "rate_limit_paused_until initial_state = None"
    by (simp_all add: long_pause_handler_def example_handler_def initial_state_def)
  from timestamps_bounded_after_trigger [OF c r] c r l show ?thesis by simp
qed

lemma burst_run:
  "run_limiter example_handler example_world burst initial_state =
     ([Admitted, Admitted, Admitted, Admitted, Admitted, Triggered],
      \<lparr>deletion_timestamps = burst, rate_limit_paused_until = Some 9500000,
       trace = [SendMessage (pause_notice example_handler example_world) None None]\<rparr>)"
  by (simp add: burst_def rate_limit_at_def example_handler_def initial_state_def Let_def
        send_message_def emit_def example_world_def)

text \<open>With the default limits (threshold 5, window 10 seconds, pause 5 seconds): six
  deletion events within half a second set the pause at the sixth; the pause is over 5
  seconds later, while all six timestamps are still inside the window; a seventh event
  then sets the pause again, with 7 timestamps recorded, more than threshold + 1.\<close>

theorem timestamps_unbounded_counterexample:
  "deletion_rate_limit_threshold example_handler = 5 \<and>
   sorted (burst @ [9600000]) \<and>
   deletion_timestamps initial_state = [] \<and> rate_limit_paused_until initial_state = None \<and>
   fst (rate_limit_at example_handler example_world 9600000
          (snd (run_limiter example_handler example_world burst initial_state))) = Triggered \<and>
   length (deletion_timestamps (snd (rate_limit_at example_handler example_world 9600000
          (snd (run_limiter example_handler example_world burst initial_state))))) = 7 \<and>
   \<not> int (length (deletion_timestamps (snd (rate_limit_at example_handler example_world 9600000
          (snd (run_limiter example_handler example_world burst initial_state))))))
       \<le> deletion_rate_limit_threshold example_handler + 1"
  by (simp add: burst_run)
     (simp add: burst_def rate_limit_at_def example_handler_def initial_state_def Let_def)

lemma rate_limit_at_added:
  assumes "rate_limit_at h w now st = (g, st')"
  shows "trace st' = trace st @
           (if g = Triggered \<and> has_log_sender h
            then [SendMessage (pause_notice h w) None
                    (log_send_message w (trace st) (pause_notice h w) None)]
            else [])"
  using assms
  by (auto simp: rate_limit_at_def send_message_def Let_def split: option.splits if_splits)

lemma rate_limit_at_paused:
  assumes "rate_limit_at h w now st = (g, st')"
  shows "(g = StillPaused \<longrightarrow> st' = st) \<and>
         (g = Admitted \<longrightarrow> rate_limit_paused_until st' = None) \<and>
         (g = Triggered \<longrightarrow> rate_limit_paused_until st' = Some (now + deletion_pause_duration h))"
  using assms
  by (auto simp: rate_limit_at_def send_message_def Let_def split: option.splits if_splits)

lemma run_limiter_trace:
  assumes "has_log_sender h"
  shows "run_limiter h w nows st = (gs, st') \<Longrightarrow>
         \<exists>tr. trace st' = trace st @ tr \<and>
              length (filter (is_text_send (pause_notice h w)) tr) = count_list gs Triggered \<and>
              length tr = count_list gs Triggered"
proof (induction nows arbitrary: st gs st')
  case Nil
  then show ?case by simp
next
  case (Cons now nows)
  obtain g st1 where s1: "rate_limit_at h w now st = (g, st1)"
    by (cases "rate_limit_at h w now st")
  obtain gs1 st2 where s2: "run_limiter h w nows st1 = (gs1, st2)"
    by (cases "run_limiter h w nows st1")
  from Cons.prems s1 s2 have eq: "gs = g # gs1" "st' = st2" by simp_all
  from Cons.IH [OF s2] obtain tr where tr: "trace st2 = trace st1 @ tr"
    "length (filter (is_text_send (pause_notice h w)) tr) = count_list gs1 Triggered"
    "length tr = count_list gs1 Triggered" by blast
  from rate_limit_at_added [OF s1] assms tr eq show ?case
    by (cases "g = Triggered") auto
qed

text \<open>
  Claim C3. With the log sender set (as it is whenever \<^verbatim>\<open>process\<close> lets an event
  through), a call inside a pause returns false and changes nothing: no notice is sent.
  Of the three ways a call returns, only the one that sets the pause sends, and it sends
  exactly the pause notice; an admitted call leaves no pause set. So over any sequence of
  calls the notices sent are as many as the calls that set the pause, and nothing else
  is sent.
\<close>

theorem pause_notified_once:
  assumes "has_log_sender h"
  shows "(\<forall>p. rate_limit_paused_until st = Some p \<and> now < p \<longrightarrow>
              rate_limit_at h w now st = (StillPaused, st) \<and> \<not> allowed StillPaused) \<and>
         (\<forall>g st'. rate_limit_at h w now st = (g, st') \<longrightarrow>
              (g = StillPaused \<longrightarrow> st' = st) \<and>
              (g = Admitted \<longrightarrow> rate_limit_paused_until st' = None \<and> added st st' = []) \<and>
              (g = Triggered \<longrightarrow>
                 rate_limit_paused_until st' = Some (now + deletion_pause_duration h) \<and>
                 (\<exists>r. added st st' = [SendMessage (pause_notice h w) None r]))) \<and>
         (\<forall>nows gs st'. run_limiter h w nows st = (gs, st') \<longrightarrow>
              length (filter (is_text_send (pause_notice h w)) (added st st'))
                = count_list gs Triggered \<and>
              length (added st st') = count_list gs Triggered)"
proof (intro conjI allI impI)
  fix p assume "rate_limit_paused_until st = Some p \<and> now < p"
  then show "rate_limit_at h w now st = (StillPaused, st)"
    by (simp add: rate_limit_at_def)
next
  show "\<not> allowed StillPaused" by simp
next
  fix g st' assume "rate_limit_at h w now st = (g, st')" "g = StillPaused"
  then show "st' = st" using rate_limit_at_paused by blast
next
  fix g st' assume "rate_limit_at h w now st = (g, st')" "g = Admitted"
  then show "rate_limit_paused_until st' = None" using rate_limit_at_paused by blast
next
  fix g st' assume a: "rate_limit_at h w now st = (g, st')" "g = Admitted"
  from rate_limit_at_added [OF a(1)] a(2) show "added st st' = []"
    by (simp add: added_def)
next
  fix g st' assume "rate_limit_at h w now st = (g, st')" "g = Triggered"
  then show "rate_limit_paused_until st' = Some (now + deletion_pause_duration h)"
    using rate_limit_at_paused by blast
next
  fix g st' assume a: "rate_limit_at h w now st = (g, st')" "g = Triggered"
  from rate_limit_at_added [OF a(1)] a(2) assms
  show "\<exists>r. added st st' = [SendMessage (pause_notice h w) None r]"
    by (simp add: added_def)
next
  fix nows gs st' assume a: "run_limiter h w nows st = (gs, st')"
  from run_limiter_trace [OF assms a]
  show "length (filter (is_text_send (pause_notice h w)) (added st st')) = count_list gs Triggered"
    by (auto simp: added_def)
next
  fix nows gs st' assume a: "run_limiter h w nows st = (gs, st')"
  from run_limiter_trace [OF assms a]
  show "length (added st st') = count_list gs Triggered"
    by (auto simp: added_def)
qed

lemma burst_paused_run:
  "run_limiter example_handler example_world (burst @ [9000000, 9600000]) initial_state =
     ([Admitted, Admitted, Admitted, Admitted, Admitted, Triggered, StillPaused, Triggered],
      \<lparr>deletion_timestamps = burst @ [9600000], rate_limit_paused_until = Some 14600000,
       trace = [SendMessage (pause_notice example_handler example_world) None None,
                SendMessage (pause_notice example_handler example_world) None None]\<rparr>)"
  by (simp add: burst_def rate_limit_at_def example_handler_def initial_state_def Let_def
        send_message_def emit_def example_world_def)

text \<open>A call one second before the end of a pause is refused and changes nothing. Over
  the six events of the burst, a seventh inside the pause and an eighth after it, the
  pause is set twice and the notice is sent twice.\<close>

theorem pause_notified_once_witness:
  "has_log_sender example_handler \<and>
   rate_limit_paused_until paused_state = Some 9000000 \<and>
   rate_limit_at example_handler example_world 8000000 paused_state = (StillPaused, paused_state) \<and>
   fst (run_limiter example_handler example_world (burst @ [9000000, 9600000]) initial_state) =
     [Admitted, Admitted, Admitted, Admitted, Admitted, Triggered, StillPaused, Triggered] \<and>
   added initial_state
     (snd (run_limiter example_handler example_world (burst @ [9000000, 9600000]) initial_state)) =
     [SendMessage (pause_notice example_handler example_world) None None,
      SendMessage (pause_notice example_handler example_world) None None]"
proof -
  have h: "has_log_sender example_handler" by (simp add: example_handler_def)
  have p: "rate_limit_paused_until paused_state = Some 9000000 \<and> (8000000 :: int) < 9000000"
    by (simp add: paused_state_def)
  from pause_notified_once [OF h, of paused_state 8000000 example_world] p
  have "rate_limit_at example_handler example_world 8000000 paused_state = (StillPaused, paused_state)"
    by blast
  with h p show ?thesis
    unfolding burst_paused_run by (simp add: added_def initial_state_def)
qed

subsection \<open>The formatter\<close>

lemma replace_char_append:
  "replace_char c r (xs @ ys) = replace_char c r xs @ replace_char c r ys"
  by (induction xs) auto

lemma escape_markdown_Cons:
  "escape_markdown (x # xs) =
     (if x = 42 \<or> x = 95 \<or> x = 96 then [92, x] else [x]) @ escape_markdown xs"
  by (simp add: escape_markdown_def replace_char_append)

lemma escape_markdown_append:
  "escape_markdown (xs @ ys) = escape_markdown xs @ escape_markdown ys"
  by (simp add: escape_markdown_def replace_char_append)

lemma escape_markdown_plain:
  "list_all (\<lambda>x. x \<noteq> 42 \<and> x \<noteq> 95 \<and> x \<noteq> 96) t \<Longrightarrow> escape_markdown t = t"
  by (induction t) (auto simp: escape_markdown_Cons escape_markdown_def)

lemma escape_truncation_marker: "escape_markdown truncation_marker = truncation_marker"
  by (rule escape_markdown_plain) (simp add: truncation_marker_def)

lemma length_truncation_marker: "length truncation_marker = 12"
  by (simp add: truncation_marker_def)

lemma escape_replicate_a: "escape_markdown (replicate n 97) = replicate n 97"
  by (rule escape_markdown_plain) (simp add: list_all_iff)

lemma capped_body:
  "escape_markdown (truncate_text t) =
     (if length t \<le> 3500 then escape_markdown t
      else escape_markdown (take 3500 t) @ truncation_marker)"
  by (simp add: truncate_text_def escape_markdown_append escape_truncation_marker)

text \<open>When a lookup of a mention raises, and for a stored message without text, the
  output is the error text of line 493, without any body.\<close>

lemma format_live_error:
  assumes "has_client h"
    and "(\<exists>e st1. mention w (get_sender_id w m) (tl_id m) st = (Inl e, st1)) \<or>
         (\<exists>sm st1 e st2. mention w (get_sender_id w m) (tl_id m) st = (Inr sm, st1) \<and>
            chat_mention_of w (tl_chat_id m) (tl_is_private m) (tl_id m) st1 = (Inl e, st2))"
  shows "fst (format_output_message h w et (Live m) del st) = formatting_error (tl_id m)"
  using assms by (auto simp: format_output_message_def)

lemma format_stored_error:
  assumes "has_client h"
    and "(\<exists>e st1. mention w (db_from_id d) (db_id d) st = (Inl e, st1)) \<or>
         (\<exists>sm st1 e st2. mention w (db_from_id d) (db_id d) st = (Inr sm, st1) \<and>
            chat_mention_of w (db_chat_id d) (db_is_private d) (db_id d) st1 = (Inl e, st2)) \<or>
         db_text d = None"
  shows "fst (format_output_message h w et (Stored d) del st) = formatting_error (db_id d)"
  using assms
  by (auto simp: format_output_message_def assemble_def split: prod.splits sum.splits)

text \<open>
  Claim C7, as amended. The cap of 3500 is on the characters kept of the message's own
  text, and the truncation marker comes on top of it. Whenever the mentions of the sender
  and of the chat are found, the output for a message, live or stored, is exactly: the
  header, an empty line, the body, a line break and the footer, where the body is the
  whole text with its Markdown characters escaped when the text has at most 3500
  characters, and otherwise the first 3500 characters of the text, escaped, followed by
  the marker. The marker has 12 characters and is not changed by the escaping, so before
  the escaping the body has at most 3512 characters. The text of a live message without
  text is the empty string.
\<close>

theorem body_cut_at_cap:
  assumes "has_client h"
  shows
    "(\<forall>t sm st1 cm st2.
        (case tl_text m of None \<Rightarrow> [] | Some x \<Rightarrow> x) = t \<and>
        mention w (get_sender_id w m) (tl_id m) st = (Inr sm, st1) \<and>
        chat_mention_of w (tl_chat_id m) (tl_is_private m) (tl_id m) st1 = (Inr cm, st2) \<longrightarrow>
        format_output_message h w et (Live m) del st =
          (header_of et cm sm @ [10, 10]
           @ (if length t \<le> 3500 then escape_markdown t
              else escape_markdown (take 3500 t) @ truncation_marker)
           @ [10]
           @ footer_of w (Live m) (tl_id m) (tl_chat_id m) (tl_reply_to_msg_id m) (tl_date m)
               (tl_edit_date m) del,
           st2)) \<and>
     (\<forall>t sm st1 cm st2.
        db_text d = Some t \<and>
        mention w (db_from_id d) (db_id d) st = (Inr sm, st1) \<and>
        chat_mention_of w (db_chat_id d) (db_is_private d) (db_id d) st1 = (Inr cm, st2) \<longrightarrow>
        format_output_message h w et (Stored d) del st =
          (header_of et cm sm @ [10, 10]
           @ (if length t \<le> 3500 then escape_markdown t
              else escape_markdown (take 3500 t) @ truncation_marker)
           @ [10]
           @ footer_of w (Stored d) (db_id d) (db_chat_id d) (db_reply_to_msg_id d) (db_date d)
               (db_edit_date d) del,
           st2)) \<and>
     length truncation_marker = 12 \<and>
     escape_markdown truncation_marker = truncation_marker \<and>
     (\<forall>t. length (truncate_text t) \<le> 3500 + 12)"
proof (intro conjI allI impI)
  fix t sm st1 cm st2
  assume "(case tl_text m of None \<Rightarrow> [] | Some x \<Rightarrow> x) = t \<and>
        mention w (get_sender_id w m) (tl_id m) st = (Inr sm, st1) \<and>
        chat_mention_of w (tl_chat_id m) (tl_is_private m) (tl_id m) st1 = (Inr cm, st2)"
  with assms show "format_output_message h w et (Live m) del st =
          (header_of et cm sm @ [10, 10]
           @ (if length t \<le> 3500 then escape_markdown t
              else escape_markdown (take 3500 t) @ truncation_marker)
           @ [10]
           @ footer_of w (Live m) (tl_id m) (tl_chat_id m) (tl_reply_to_msg_id m) (tl_date m)
               (tl_edit_date m) del,
           st2)"
    by (simp add: format_output_message_def assemble_def capped_body)
next
  fix t sm st1 cm st2
  assume "db_text d = Some t \<and>
        mention w (db_from_id d) (db_id d) st = (Inr sm, st1) \<and>
        chat_mention_of w (db_chat_id d) (db_is_private d) (db_id d) st1 = (Inr cm, st2)"
  with assms show "format_output_message h w et (Stored d) del st =
          (header_of et cm sm @ [10, 10]
           @ (if length t \<le> 3500 then escape_markdown t
              else escape_markdown (take 3500 t) @ truncation_marker)
           @ [10]
           @ footer_of w (Stored d) (db_id d) (db_chat_id d) (db_reply_to_msg_id d) (db_date d)
               (db_edit_date d) del,
           st2)"
    by (simp add: format_output_message_def assemble_def capped_body)
next
  show "length truncation_marker = 12" by (rule length_truncation_marker)
  show "escape_markdown truncation_marker = truncation_marker" by (rule escape_truncation_marker)
  show "\<And>t. length (truncate_text t) \<le> 3500 + 12"
    by (simp add: truncate_text_def length_truncation_marker)
qed

lemma example_mention:
  "mention example_world 7 1 initial_state =
     (Inr [55], initial_state\<lparr>trace := [CreateMention 7 1 (Inr [55])]\<rparr>)"
  by (simp add: mention_def Let_def emit_def example_world_def initial_state_def str_int_def
        str_nat.simps)

lemma example_footer:
  "footer_of example_world md 1 (Some 7) None None None del =
     label_message_id @ [49, 96] @ label_time @ unknown_time @ media_indicator md"
  by (simp add: footer_of_def reply_to_str_def date_str_def edit_date_str_def str_int_def
        str_nat.simps)

text \<open>The formatter applied to the private message of user 7. With a text of 3500
  letters the body is the text; with one of 3501 letters it is the first 3500 and the
  marker; the same for the stored record of the message, logged as deleted.\<close>

theorem body_cut_at_cap_witness:
  "has_client example_handler \<and>
   tl_text long_message = Some (replicate 3501 97) \<and>
   fst (format_output_message example_handler example_world event_new (Live long_message) False
          initial_state) =
     header_new @ label_from @ [55] @ [10, 10]
     @ replicate 3500 97 @ truncation_marker
     @ [10] @ label_message_id @ [49, 96] @ label_time @ unknown_time \<and>
   fst (format_output_message example_handler example_world event_new
          (Live (long_message\<lparr>tl_text := Some (replicate 3500 97)\<rparr>)) False initial_state) =
     header_new @ label_from @ [55] @ [10, 10]
     @ replicate 3500 97
     @ [10] @ label_message_id @ [49, 96] @ label_time @ unknown_time \<and>
   db_text long_stored_message = Some (replicate 3501 97) \<and>
   fst (format_output_message example_handler example_world event_deleted
          (Stored long_stored_message) True initial_state) =
     header_deleted @ label_from @ [55] @ [10, 10]
     @ replicate 3500 97 @ truncation_marker
     @ [10] @ label_message_id @ [49, 96] @ label_time @ unknown_time \<and>
   truncation_marker = [46, 46, 46, 32, 40, 28040, 24687, 36807, 38271, 25130, 26029, 41]"
proof -
  let ?m = "long_message\<lparr>tl_text := Some (replicate 3500 97)\<rparr>"
  let ?st1 = "initial_state\<lparr>trace := [CreateMention 7 1 (Inr [55])]\<rparr>"
  have h: "has_client example_handler" by (simp add: example_handler_def)
  have f: "tl_id long_message = 1" "tl_chat_id long_message = Some 7"
    "tl_is_private long_message" "tl_text long_message = Some (replicate 3501 97)"
    "tl_reply_to_msg_id long_message = None" "tl_date long_message = None"
    "tl_edit_date long_message = None" "tl_media long_message = None"
    "get_sender_id example_world long_message = 7"
    "get_sender_id example_world ?m = 7"
    by (simp_all add: long_message_def example_message_def example_world_def)
  have g: "db_id long_stored_message = 1" "db_chat_id long_stored_message = Some 7"
    "db_from_id long_stored_message = 7" "db_is_private long_stored_message"
    "db_text long_stored_message = Some (replicate 3501 97)"
    "db_reply_to_msg_id long_stored_message = None" "db_date long_stored_message = None"
    "db_edit_date long_stored_message = None" "db_media_type long_stored_message = None"
    by (simp_all add: long_stored_message_def)
  have c: "\<And>s. chat_mention_of example_world (Some 7) True 1 s = (Inr [], s)"
    by (simp add: chat_mention_of_def)
  have hd: "header_of event_new [] [55] = header_new @ label_from @ [55]"
    "header_of event_deleted [] [55] = header_deleted @ label_from @ [55]"
    by (simp_all add: header_of_def event_new_def event_deleted_def event_edited_def)
  note live = body_cut_at_cap [THEN conjunct1, rule_format]
  note stored = body_cut_at_cap [THEN conjunct2, THEN conjunct1, rule_format]
  from live [OF h, where m = long_message and w = example_world and st = initial_state
         and et = event_new and del = False and t = "replicate 3501 97" and sm = "[55]"
         and ?st1.0 = ?st1 and cm = "[]" and ?st2.0 = ?st1]
  have 1: "format_output_message example_handler example_world event_new (Live long_message)
             False initial_state =
     (header_new @ label_from @ [55] @ [10, 10] @ replicate 3500 97 @ truncation_marker
      @ [10] @ label_message_id @ [49, 96] @ label_time @ unknown_time, ?st1)"
    by (simp add: f example_mention c hd example_footer media_indicator_def escape_replicate_a)
  from live [OF h, where m = ?m and w = example_world and st = initial_state
         and et = event_new and del = False and t = "replicate 3500 97" and sm = "[55]"
         and ?st1.0 = ?st1 and cm = "[]" and ?st2.0 = ?st1]
  have 2: "format_output_message example_handler example_world event_new (Live ?m)
             False initial_state =
     (header_new @ label_from @ [55] @ [10, 10] @ replicate 3500 97
      @ [10] @ label_message_id @ [49, 96] @ label_time @ unknown_time, ?st1)"
    by (simp add: f example_mention c hd example_footer media_indicator_def escape_replicate_a)
  from stored [OF h, where d = long_stored_message and w = example_world
         and st = initial_state and et = event_deleted and del = True
         and t = "replicate 3501 97" and sm = "[55]" and ?st1.0 = ?st1 and cm = "[]"
         and ?st2.0 = ?st1]
  have 3: "format_output_message example_handler example_world event_deleted
             (Stored long_stored_message) True initial_state =
     (header_deleted @ label_from @ [55] @ [10, 10] @ replicate 3500 97 @ truncation_marker
      @ [10] @ label_message_id @ [49, 96] @ label_time @ unknown_time, ?st1)"
    by (simp add: g example_mention c hd example_footer media_indicator_def escape_replicate_a)
  have 4: "truncation_marker = [46, 46, 46, 32, 40, 28040, 24687, 36807, 38271, 25130, 26029, 41]"
    by (simp add: truncation_marker_def)
  from h f(4) g(5) 1 2 3 show ?thesis by (simp add: 4 [symmetric])
qed

text \<open>The body segment made from a text of 3501 letters is the first 3500 of them and
  the marker: 3512 characters, more than 3500.\<close>

theorem body_exceeds_cap_counterexample:
  "length (replicate 3501 (97 :: nat)) = 3501 \<and>
   escape_markdown (truncate_text (replicate 3501 97)) = replicate 3500 97 @ truncation_marker \<and>
   length (escape_markdown (truncate_text (replicate 3501 97))) = 3512 \<and>
   \<not> length (escape_markdown (truncate_text (replicate 3501 97))) \<le> 3500"
  by (simp add: truncate_text_def escape_markdown_append escape_replicate_a
        escape_truncation_marker length_truncation_marker)

subsection \<open>Media delivery\<close>

lemma send_stored_file_flow:
  "send_stored_file w path restricted send st = (f, st') \<Longrightarrow> f = Returned \<or> f = FellThrough"
  by (auto simp: send_stored_file_def split: prod.splits option.splits sum.splits)

lemma send_prepared_media_flow:
  "send_prepared_media w m send st = (f, st') \<Longrightarrow> f = Returned \<or> f = FellThrough"
  by (auto simp: send_prepared_media_def split: prod.splits option.splits sum.splits if_splits)

lemma send_prepared_media_first:
  "\<exists>r rest. trace (snd (send_prepared_media w m (\<lambda>p. send_file w p txt x) st)) =
              trace st @ PrepareMedia m r # rest"
  by (auto simp: send_prepared_media_def enter_prepare_media_def exit_prepare_media_def
        send_file_def Let_def split: prod.splits option.splits sum.splits)

lemma text_fallback_first:
  "\<exists>r. trace (snd (text_fallback w txt st)) = trace st @ [SendMessage (media_warning txt) None r] \<and>
       fst (text_fallback w txt st) = (case r of None \<Rightarrow> Returned | Some e \<Rightarrow> Raised e)"
  by (auto simp: text_fallback_def send_message_def Let_def split: prod.splits option.splits)

lemma deliver_never_raises:
  assumes "has_client h" and "has_log_sender h" and "has_restricted_media_handler h"
  shows "fst (send_message_with_media h w txt m st) = Inr ()"
  using assms by (simp add: send_message_with_media_def split: prod.splits flow.splits)

lemma send_stored_file_sent:
  assumes "\<And>p s. sent s (snd (send p s))"
    and "send_stored_file w path restricted send st = (f, st')"
  shows "grows any_action st st' \<and> (f = Returned \<longrightarrow> sent st st')"
proof -
  have g: "\<And>p s. grows any_action st s \<Longrightarrow> grows any_action st (snd (send p s))"
    using assms(1) sent_grows grows_trans by blast
  have s: "\<And>p s. grows any_action st s \<Longrightarrow> sent st (snd (send p s))"
    using assms(1) sent_after by blast
  have e: "\<And>s. sent st s \<Longrightarrow> sent st (snd (exit_context w s))"
    by (rule sent_before [where P = any_action])
       (auto simp: exit_context_def Let_def intro: any_emit)
  have 0: "grows any_action st st" by simp
  show ?thesis
    using assms(2)
    by (auto simp: send_stored_file_def retrieve_media_def enter_context_def exit_context_def
          Let_def split_beta
          intro!: any_emit g 0 e [unfolded exit_context_def Let_def, simplified] s
          split: option.splits sum.splits)
qed








lemma send_stored_file_returned:
  assumes "send_stored_file w path restricted (\<lambda>p. send_file w p c x) st = (Returned, st')"
  shows "\<exists>p. list_ex (\<lambda>a. a = SendFile p c x None) (added st st')"
  using assms
  by (auto simp: send_stored_file_def retrieve_media_def enter_context_def exit_context_def
        send_file_def Let_def added_def split: option.splits sum.splits)

lemma sticker_from_db_outcomes:
  assumes "sticker_from_db w t m st = (f, st')"
  shows "(\<forall>e. f = Raised e \<longrightarrow> added st st' = [DbRead (tl_id m) (Inl e)]) \<and>
         (f = Returned \<longrightarrow>
            (\<exists>p. list_ex (\<lambda>a. a = SendFile p t (tl_reply_to_msg_id m) None) (added st st')))"
proof (intro conjI allI impI)
  fix e assume "f = Raised e"
  with assms show "added st st' = [DbRead (tl_id m) (Inl e)]"
    by (auto simp: sticker_from_db_def get_message_by_id_def Let_def added_def
          split: sum.splits option.splits if_splits dest: send_stored_file_flow)
next
  assume r: "f = Returned"
  let ?r = "get_message_by_id w (tl_id m) st"
  from assms r obtain path restricted where
    s: "send_stored_file w path restricted (\<lambda>p. send_file w p t (tl_reply_to_msg_id m)) (snd ?r)
          = (Returned, st')"
    by (auto simp: sticker_from_db_def split_beta split: sum.splits option.splits if_splits)
  from send_stored_file_returned [OF s] obtain p where
    p: "list_ex (\<lambda>a. a = SendFile p t (tl_reply_to_msg_id m) None) (added (snd ?r) st')" by blast
  have g: "trace (snd ?r) = trace st @ [DbRead (tl_id m) (fst ?r)]"
    by (simp add: get_message_by_id_def Let_def)
  from send_stored_file_sent [OF _ s] via_send_file
  have "grows any_action (snd ?r) st'" by blast
  then obtain tr where tr: "trace st' = trace (snd ?r) @ tr" by (auto simp: grows_def)
  with p have "list_ex (\<lambda>a. a = SendFile p t (tl_reply_to_msg_id m) None) tr"
    by (simp add: added_def)
  with tr g have "list_ex (\<lambda>a. a = SendFile p t (tl_reply_to_msg_id m) None) (added st st')"
    by (simp add: added_def)
  then show "\<exists>p. list_ex (\<lambda>a. a = SendFile p t (tl_reply_to_msg_id m) None) (added st st')" ..
qed

text \<open>What the branch of line 524 does once it is entered. With the helpers set, the
  delivery never raises, whatever the collaborators do. The attempt with the stored file
  ends in one of three ways: the database read raised; the stored file was sent; or it
  falls through (there is no record, no path, no file at the path, or the send of the
  file failed). When it falls through, the next call is the fresh fetch of the media
  (\<^verbatim>\<open>prepare_media\<close>); and when that attempt falls through too (the fetch fails or is
  empty, or the send fails), the next call is the send of the text alone, wrapped in the
  warning that the media may not have been sent. The branch is entered for a media object
  with a sticker attribute among its own \<^verbatim>\<open>attributes\<close>.\<close>

lemma sticker_branch_chain:
  assumes "has_client h" and "has_log_sender h" and "has_restricted_media_handler h"
  shows "fst (send_message_with_media h w txt m st) = Inr () \<and>
         (\<forall>f st1. sticker_from_db w txt m st = (f, st1) \<longrightarrow>
            (\<forall>e. f = Raised e \<longrightarrow> added st st1 = [DbRead (tl_id m) (Inl e)]) \<and>
            (f = Returned \<longrightarrow>
               (\<exists>p. list_ex (\<lambda>a. a = SendFile p txt (tl_reply_to_msg_id m) None)
                      (added st st1)))) \<and>
         (\<forall>md st1. tl_media m = Some md \<and> is_sticker md \<and>
                    sticker_from_db w txt m st = (FellThrough, st1) \<longrightarrow>
            (\<exists>r rest. trace (snd (send_message_with_media h w txt m st)) =
                         trace st1 @ PrepareMedia m r # rest) \<and>
            (\<forall>st2. sticker_dynamic w txt m st1 = (FellThrough, st2) \<longrightarrow>
               (\<exists>r rest. trace (snd (send_message_with_media h w txt m st)) =
                            trace st2 @ SendMessage (media_warning txt) None r # rest)))"
proof -
  have never: "fst (send_message_with_media h w txt m st) = Inr ()"
    using assms by (rule deliver_never_raises)
  have stored: "\<forall>f st1. sticker_from_db w txt m st = (f, st1) \<longrightarrow>
            (\<forall>e. f = Raised e \<longrightarrow> added st st1 = [DbRead (tl_id m) (Inl e)]) \<and>
            (f = Returned \<longrightarrow>
               (\<exists>p. list_ex (\<lambda>a. a = SendFile p txt (tl_reply_to_msg_id m) None)
                      (added st st1)))"
    using sticker_from_db_outcomes by blast
  have chain: "\<forall>md st1. tl_media m = Some md \<and> is_sticker md \<and>
                    sticker_from_db w txt m st = (FellThrough, st1) \<longrightarrow>
            (\<exists>r rest. trace (snd (send_message_with_media h w txt m st)) =
                         trace st1 @ PrepareMedia m r # rest) \<and>
            (\<forall>st2. sticker_dynamic w txt m st1 = (FellThrough, st2) \<longrightarrow>
               (\<exists>r rest. trace (snd (send_message_with_media h w txt m st)) =
                            trace st2 @ SendMessage (media_warning txt) None r # rest))"
  proof (intro conjI allI impI)
    fix md st1
    assume a: "tl_media m = Some md \<and> is_sticker md \<and> sticker_from_db w txt m st = (FellThrough, st1)"
    obtain f2 st2 where d: "sticker_dynamic w txt m st1 = (f2, st2)"
      by (cases "sticker_dynamic w txt m st1")
    from send_prepared_media_first [of w m "txt" "tl_reply_to_msg_id m" st1] d
    obtain r rest where t2: "trace st2 = trace st1 @ PrepareMedia m r # rest"
      by (auto simp: sticker_dynamic_def)
    from d have f2: "f2 = Returned \<or> f2 = FellThrough"
      unfolding sticker_dynamic_def by (rule send_prepared_media_flow)
    from text_fallback_first [of w "txt" st2]
    obtain r3 where t3: "trace (snd (text_fallback w txt st2)) =
                           trace st2 @ [SendMessage (media_warning txt) None r3]"
      by blast
    show "\<exists>r rest. trace (snd (send_message_with_media h w txt m st)) =
                     trace st1 @ PrepareMedia m r # rest"
      using assms a d t2 f2 t3
      by (cases "text_fallback w txt st2")
         (auto simp: send_message_with_media_def deliver_body_def sticker_branch_def
            send_message_def Let_def split: flow.splits)
  next
    fix md st1 st2
    assume a: "tl_media m = Some md \<and> is_sticker md \<and> sticker_from_db w txt m st = (FellThrough, st1)"
      and d: "sticker_dynamic w txt m st1 = (FellThrough, st2)"
    from text_fallback_first [of w "txt" st2]
    obtain r3 where t3: "trace (snd (text_fallback w txt st2)) =
                           trace st2 @ [SendMessage (media_warning txt) None r3]"
      by blast
    show "\<exists>r rest. trace (snd (send_message_with_media h w txt m st)) =
                     trace st2 @ SendMessage (media_warning txt) None r # rest"
      using assms a d t3
      by (cases "text_fallback w txt st2")
         (auto simp: send_message_with_media_def deliver_body_def sticker_branch_def
            send_message_def Let_def split: flow.splits)
  qed
  from never stored chain show ?thesis by (intro conjI)
qed

subsection \<open>Stickers as they arrive\<close>

lemma grows_no_fetch:
  "grows no_fetch st st' \<Longrightarrow> \<not> list_ex is_fetch (added st st')"
  by (auto simp: grows_def added_def no_fetch_def list_all_iff list_ex_iff)

lemma no_fetch_send_message:
  "grows no_fetch st st1 \<Longrightarrow> grows no_fetch st (snd (send_message w t f st1))"
  by (rule grows_send_message) (simp_all add: no_fetch_def)

lemma send_stored_file_no_fetch:
  assumes "\<And>p s. grows no_fetch st s \<Longrightarrow> grows no_fetch st (snd (send p s))"
    and "grows no_fetch st st1"
  shows "grows no_fetch st (snd (send_stored_file w path restricted send st1))"
  using assms(2)
  by (auto simp: send_stored_file_def retrieve_media_def enter_context_def exit_context_def
        Let_def split_beta no_fetch_def
        intro!: grows_emit assms(1) split: option.splits sum.splits)

lemma normal_branch_no_fetch:
  "grows no_fetch st (snd (normal_branch w t m st))"
proof -
  let ?r = "get_message_by_id w (tl_id m) st"
  have 1: "grows no_fetch st (snd ?r)"
    by (rule grows_get_message_by_id) (simp_all add: no_fetch_def)
  have 2: "\<And>path. grows no_fetch st
             (snd (send_stored_file w path False (\<lambda>p. send_message w t (Some p)) (snd ?r)))"
    using no_fetch_send_message 1 by (rule send_stored_file_no_fetch)
  from 1 2 show ?thesis
    by (auto simp: normal_branch_def split_beta split: sum.splits option.splits)
qed

lemma text_fallback_no_fetch:
  "grows no_fetch st st1 \<Longrightarrow> grows no_fetch st (snd (text_fallback w t st1))"
  by (auto simp: text_fallback_def split_beta dest: no_fetch_send_message split: option.splits)

lemma telethon_sticker_not_seen: "telethon_sticker md \<Longrightarrow> \<not> is_sticker md"
  by (simp add: telethon_sticker_def is_sticker_def)

text \<open>
  Claim C1. The handler means to do what the claim says, and does it for a media object
  that carries the sticker attribute among its own attributes; but the test of line 521
  never holds of a sticker as it arrives, whose sticker attribute is on the document of
  the media. Such a sticker, when the message is not protected, is delivered by the branch
  for ordinary media: the stored file is tried, and when that attempt falls through the
  next call is already the send of the text alone, between the warning
  \<^verbatim>\<open>media_warning_prefix\<close> and the note \<^verbatim>\<open>media_warning_suffix\<close>. The media is not
  fetched afresh at any point of the delivery. The delivery still never raises.
\<close>

theorem telethon_sticker_not_fetched:
  assumes "has_client h" and "has_log_sender h" and "has_restricted_media_handler h"
    and "tl_media m = Some md" and "telethon_sticker md" and "\<not> tl_noforwards m"
  shows "\<not> is_sticker md \<and>
         fst (send_message_with_media h w txt m st) = Inr () \<and>
         deliver_body w txt m st =
           (case normal_branch w txt m st of
              (FellThrough, st1) \<Rightarrow> text_fallback w txt st1
            | (Returned, st1) \<Rightarrow> (Returned, st1)
            | (Raised e, st1) \<Rightarrow> (Raised e, st1)) \<and>
         \<not> list_ex is_fetch (added st (snd (send_message_with_media h w txt m st))) \<and>
         (\<forall>st1. normal_branch w txt m st = (FellThrough, st1) \<longrightarrow>
            (\<exists>r rest. trace (snd (send_message_with_media h w txt m st)) =
               trace st1
               @ SendMessage (media_warning_prefix @ txt @ media_warning_suffix) None r # rest))"
proof -
  from assms(5) have n: "\<not> is_sticker md" by (rule telethon_sticker_not_seen)
  have never: "fst (send_message_with_media h w txt m st) = Inr ()"
    using assms(1-3) by (rule deliver_never_raises)
  have body: "deliver_body w txt m st =
           (case normal_branch w txt m st of
              (FellThrough, st1) \<Rightarrow> text_fallback w txt st1
            | (Returned, st1) \<Rightarrow> (Returned, st1)
            | (Raised e, st1) \<Rightarrow> (Raised e, st1))"
    using assms(4,6) n by (simp add: deliver_body_def)
  obtain f1 st1 where b: "normal_branch w txt m st = (f1, st1)"
    by (cases "normal_branch w txt m st")
  from normal_branch_no_fetch [of st w "txt" m] b have g1: "grows no_fetch st st1" by simp
  have g2: "grows no_fetch st (snd (deliver_body w txt m st))"
    using g1 text_fallback_no_fetch [OF g1, of w "txt"] b
    by (cases f1) (simp_all add: body)
  have "grows no_fetch st (snd (send_message_with_media h w txt m st))"
    using assms(1-3) g2 no_fetch_send_message [OF g2]
    by (auto simp: send_message_with_media_def split: prod.splits flow.splits)
  then have quiet: "\<not> list_ex is_fetch (added st (snd (send_message_with_media h w txt m st)))"
    by (rule grows_no_fetch)
  have next_call: "\<forall>st1. normal_branch w txt m st = (FellThrough, st1) \<longrightarrow>
            (\<exists>r rest. trace (snd (send_message_with_media h w txt m st)) =
               trace st1
               @ SendMessage (media_warning_prefix @ txt @ media_warning_suffix) None r # rest)"
  proof (intro allI impI)
    fix st2
    assume a: "normal_branch w txt m st = (FellThrough, st2)"
    from text_fallback_first [of w "txt" st2]
    obtain r3 where t3: "trace (snd (text_fallback w txt st2)) =
                           trace st2 @ [SendMessage (media_warning txt) None r3]"
      by blast
    show "\<exists>r rest. trace (snd (send_message_with_media h w txt m st)) =
               trace st2
               @ SendMessage (media_warning_prefix @ txt @ media_warning_suffix) None r # rest"
      using assms(1-3) a t3
      by (cases "text_fallback w txt st2")
         (auto simp: send_message_with_media_def body send_message_def Let_def media_warning_def
            split: flow.splits)
  qed
  from n never body quiet next_call show ?thesis by (intro conjI)
qed

lemma example_sticker_fields:
  "tl_id example_sticker = 2"
  "tl_reply_to_msg_id example_sticker = None"
  "tl_media example_sticker = Some sticker_media"
  "\<not> tl_noforwards example_sticker"
  by (simp_all add: example_sticker_def example_message_def)

lemma missing_file_world_fields:
  "prepare_media missing_file_world tr m = Inr (Some [113])"
  "prepare_media_exit missing_file_world tr = None"
  "log_send_message missing_file_world tr t f = None"
  "db_get_message_by_id missing_file_world tr i = Inr (Some stored_sticker)"
  "retrieve_media_as_file missing_file_world tr p r = Some (FileNotFoundError p)"
  by (simp_all add: missing_file_world_def example_world_def)

lemma example_handler_helpers:
  "has_client example_handler" "has_log_sender example_handler"
  "has_formatter example_handler" "has_restricted_media_handler example_handler"
  by (simp_all add: example_handler_def)

lemma missing_file_stored:
  "normal_branch missing_file_world [104] example_sticker initial_state =
     (FellThrough,
      initial_state\<lparr>trace := [DbRead 2 (Inr (Some stored_sticker)),
                               RetrieveMedia [112] False (Some (FileNotFoundError [112]))]\<rparr>)"
  by (simp add: normal_branch_def send_stored_file_def get_message_by_id_def retrieve_media_def
        emit_def Let_def missing_file_world_fields example_sticker_fields stored_sticker_def
        initial_state_def)

text \<open>A sticker in the forwarded group, not protected, whose stored file is missing while
  the media could be fetched afresh: the record is read, the file is not found, and the
  text \<^verbatim>\<open>h\<close> goes out between the warning and the note that the media could not be
  sent. The media is not asked for.\<close>

theorem telethon_sticker_not_fetched_witness:
  "has_client example_handler \<and> has_log_sender example_handler \<and>
   has_restricted_media_handler example_handler \<and>
   tl_media example_sticker = Some sticker_media \<and>
   media_attributes sticker_media = None \<and>
   media_document_attributes sticker_media = Some [DocumentAttributeSticker] \<and>
   telethon_sticker sticker_media \<and>
   \<not> tl_noforwards example_sticker \<and>
   \<not> is_sticker sticker_media \<and>
   prepare_media missing_file_world
     [DbRead 2 (Inr (Some stored_sticker)),
      RetrieveMedia [112] False (Some (FileNotFoundError [112]))] example_sticker =
     Inr (Some [113]) \<and>
   send_message_with_media example_handler missing_file_world [104] example_sticker initial_state =
     (Inr (),
      initial_state\<lparr>trace :=
        [DbRead 2 (Inr (Some stored_sticker)),
         RetrieveMedia [112] False (Some (FileNotFoundError [112])),
         SendMessage (media_warning_prefix @ [104] @ media_warning_suffix) None None]\<rparr>) \<and>
   media_warning_prefix @ [104] @ media_warning_suffix =
     [9888, 65039, 32, 42, 42, 23186, 20307, 21487, 33021, 26410, 21457, 36865, 42, 42, 32, 9888,
      65039, 10, 10, 104, 10, 10, 40, 21407, 22987, 23186, 20307, 26410, 33021, 25104, 21151,
      22788, 29702, 25110, 21457, 36865, 41]"
proof -
  have w: "media_warning_prefix @ [104] @ media_warning_suffix =
     [9888, 65039, 32, 42, 42, 23186, 20307, 21487, 33021, 26410, 21457, 36865, 42, 42, 32, 9888,
      65039, 10, 10, 104, 10, 10, 40, 21407, 22987, 23186, 20307, 26410, 33021, 25104, 21151,
      22788, 29702, 25110, 21457, 36865, 41]"
    by (simp add: media_warning_prefix_def media_warning_suffix_def)
  have t: "telethon_sticker sticker_media"
    "media_attributes sticker_media = None"
    "media_document_attributes sticker_media = Some [DocumentAttributeSticker]"
    by (simp_all add: telethon_sticker_def sticker_media_def)
  note c = telethon_sticker_not_fetched [OF example_handler_helpers(1,2,4)
             example_sticker_fields(3) t(1) example_sticker_fields(4),
             of missing_file_world "[104]" initial_state]
  from c have n: "\<not> is_sticker sticker_media" by blast
  from c have b: "deliver_body missing_file_world [104] example_sticker initial_state =
       text_fallback missing_file_world [104]
         (initial_state\<lparr>trace := [DbRead 2 (Inr (Some stored_sticker)),
                               RetrieveMedia [112] False (Some (FileNotFoundError [112]))]\<rparr>)"
    by (simp add: missing_file_stored)
  have fb: "text_fallback missing_file_world [104]
         (initial_state\<lparr>trace := [DbRead 2 (Inr (Some stored_sticker)),
                               RetrieveMedia [112] False (Some (FileNotFoundError [112]))]\<rparr>) =
     (Returned,
      initial_state\<lparr>trace :=
        [DbRead 2 (Inr (Some stored_sticker)),
         RetrieveMedia [112] False (Some (FileNotFoundError [112])),
         SendMessage (media_warning_prefix @ [104] @ media_warning_suffix) None None]\<rparr>)"
    by (simp add: text_fallback_def send_message_def media_warning_def
          missing_file_world_fields emit_def Let_def initial_state_def)
  have d: "send_message_with_media example_handler missing_file_world [104] example_sticker
             initial_state =
     (Inr (),
      initial_state\<lparr>trace :=
        [DbRead 2 (Inr (Some stored_sticker)),
         RetrieveMedia [112] False (Some (FileNotFoundError [112])),
         SendMessage (media_warning_prefix @ [104] @ media_warning_suffix) None None]\<rparr>)"
    by (simp add: send_message_with_media_def b fb example_handler_helpers)
  from t n d example_handler_helpers example_sticker_fields missing_file_world_fields(1)
  show ?thesis unfolding w by simp
qed

subsection \<open>Forwarding\<close>

lemma grows_lookup:
  assumes "grows quiet st st1"
  shows "grows quiet st (snd (get_message_from_db_with_retry w i c st1))"
  using assms
  by (auto simp: get_message_from_db_with_retry_def get_message_by_id_def asyncio_sleep_def Let_def
        quiet_def intro!: grows_emit split: sum.splits option.splits)

lemma grows_chat_mention:
  assumes "grows quiet st st1"
  shows "grows quiet st (snd (chat_mention_of w c p i st1))"
  using assms
  by (auto simp: chat_mention_of_def mention_def Let_def quiet_def intro!: grows_emit
        split: option.splits)

lemma grows_format:
  assumes "grows quiet st st1"
  shows "grows quiet st (snd (format_output_message h w et md del st1))"
proof -
  have m: "\<And>e i s. grows quiet st s \<Longrightarrow> grows quiet st (snd (mention w e i s))"
    by (rule grows_mention) (simp_all add: quiet_def)
  show ?thesis
  proof (cases md)
    case (Live m')
    from m [OF assms, of "get_sender_id w m'" "tl_id m'"]
    have 1: "grows quiet st (snd (mention w (get_sender_id w m') (tl_id m') st1))" .
    from grows_chat_mention [OF 1]
    have 2: "grows quiet st (snd (chat_mention_of w (tl_chat_id m') (tl_is_private m') (tl_id m')
                (snd (mention w (get_sender_id w m') (tl_id m') st1))))" .
    from assms 1 2 Live show ?thesis
      by (auto simp: format_output_message_def split_beta split: sum.splits)
  next
    case (Stored d)
    from m [OF assms, of "db_from_id d" "db_id d"]
    have 1: "grows quiet st (snd (mention w (db_from_id d) (db_id d) st1))" .
    from grows_chat_mention [OF 1]
    have 2: "grows quiet st (snd (chat_mention_of w (db_chat_id d) (db_is_private d) (db_id d)
                (snd (mention w (db_from_id d) (db_id d) st1))))" .
    from assms 1 2 Stored show ?thesis
      by (auto simp: format_output_message_def split_beta split: sum.splits)
  qed
qed


text \<open>The handler of edits, taken by itself, sends under the same condition.\<close>

lemma process_edited_message_sends:
  assumes "has_log_sender h"
  shows "(sends st (snd (process_edited_message h w (Some m) st)) \<noteq> []) = should_forward h w (Some m)"
proof (cases "should_forward h w (Some m)")
  case False
  then show ?thesis by (simp add: process_edited_message_def)
next
  case True
  let ?f = "format_output_message h w event_edited (Live m) False st"
  have "grows quiet st (snd ?f)" by (rule grows_format) simp
  then have "sent st (snd (send_message w (fst ?f) None (snd ?f)))"
    by (rule sent_send_message)
  with True assms show ?thesis
    by (auto simp: process_edited_message_def split_beta sent_sends split: option.splits)
qed



text \<open>What is left out: a chat id 0 is not looked up among the ignored ids.\<close>

lemma zero_chat_id_not_checked:
  assumes "tl_chat_id m = Some 0"
  shows "should_forward h w (Some m) =
           (get_sender_id w m \<notin> ignored_ids h \<and>
            ((tl_is_private m \<and> \<not> tl_out m \<and> get_sender_id w m \<in> forward_user_ids h) \<or>
             (tl_is_group m \<and> 0 \<in> forward_group_ids h)))"
  using assms by (auto simp: should_forward_def Let_def)


subsection \<open>The deletion gate\<close>

lemma grows_deleted_mention:
  assumes "grows no_gate st st1"
  shows "grows no_gate st (snd (deleted_mention h w c i st1))"
  using assms
  by (auto simp: deleted_mention_def mention_def Let_def no_gate_def intro!: grows_emit
        split: option.splits sum.splits)

lemma grows_log_deleted_id:
  assumes "grows no_gate st st1"
  shows "grows no_gate st (snd (log_deleted_id h w c i st1))"
proof -
  let ?l = "get_message_from_db_with_retry w i c st1"
  have "grows quiet st1 (snd ?l)" by (rule grows_lookup) simp
  then have l: "grows no_gate st (snd ?l)"
    using assms quiet_no_gate grows_trans by blast
  have s: "\<And>t s. grows no_gate st s \<Longrightarrow> grows no_gate st (snd (send_message w t None s))"
    by (rule grows_send_message) (simp_all add: no_gate_def)
  show ?thesis
  proof (cases "fst ?l")
    case None
    let ?d = "deleted_mention h w c i (snd ?l)"
    have d: "grows no_gate st (snd ?d)" using l by (rule grows_deleted_mention)
    from s [OF d] d None show ?thesis
      by (auto simp: log_deleted_id_def split_beta split: option.splits)
  next
    case (Some orig)
    let ?f = "format_output_message h w event_deleted (Stored orig) True (snd ?l)"
    have "grows quiet (snd ?l) (snd ?f)" by (rule grows_format) simp
    then have f: "grows no_gate st (snd ?f)"
      using l quiet_no_gate grows_trans by blast
    from s [OF f] f Some show ?thesis
      by (auto simp: log_deleted_id_def split_beta split: option.splits)
  qed
qed

lemma grows_log_deleted_ids:
  "grows no_gate st st1 \<Longrightarrow> grows no_gate st (snd (log_deleted_ids h w c ids st1))"
proof (induction ids arbitrary: st1)
  case Nil
  then show ?case by simp
next
  case (Cons i ids)
  from Cons.prems have 1: "grows no_gate st (snd (log_deleted_id h w c i st1))"
    by (rule grows_log_deleted_id)
  from Cons.IH [OF 1] 1 show ?case
    by (auto simp: split_beta split: sum.splits)
qed

lemma apply_deletion_rate_limit_added:
  assumes "apply_deletion_rate_limit h w st = (g, st')"
  shows "\<exists>t r. added st st' =
           ClockNow t # (if g = Triggered \<and> has_log_sender h
                         then [SendMessage (pause_notice h w) None r] else [])"
proof -
  let ?t = "clock w (trace st)"
  from assms have "rate_limit_at h w ?t (emit (ClockNow ?t) st) = (g, st')"
    by (simp add: apply_deletion_rate_limit_def now_utc_def Let_def)
  from rate_limit_at_added [OF this] show ?thesis
    by (auto simp: added_def)
qed

text \<open>
  Claim C8, as amended. A deletion event that the filter does not accept does nothing at
  all, and the rate limiter is not consulted: the handler returns when the filter
  rejects the event, and raises when the filter raises, as it does on every event without
  a chat id. A deletion event that the filter accepts consults the rate limiter exactly
  once, whatever the number of its message ids, and before anything else: the clock
  reading of the limiter is the first call, and no other follows. When the limiter
  refuses, the event ends there: no database read and no log entry for any of its ids;
  the only send there can be is the limiter's own pause notice.
\<close>

theorem deletion_gated_once:
  "(\<forall>e. should_log_deletion h ev = Inl e \<longrightarrow>
      process_deleted_message h w ev st = (Inl e, st)) \<and>
   (should_log_deletion h ev = Inr False \<longrightarrow>
      process_deleted_message h w ev st = (Inr (), st)) \<and>
   (should_log_deletion h ev = Inr True \<longrightarrow>
      (\<exists>t rest. added st (snd (process_deleted_message h w ev st)) = ClockNow t # rest \<and>
                 list_all no_gate rest) \<and>
      (\<not> allowed (fst (apply_deletion_rate_limit h w st)) \<longrightarrow>
         process_deleted_message h w ev st = (Inr (), snd (apply_deletion_rate_limit h w st)) \<and>
         (\<exists>t r. added st (snd (process_deleted_message h w ev st)) = [ClockNow t] \<or>
                added st (snd (process_deleted_message h w ev st)) =
                  [ClockNow t, SendMessage (pause_notice h w) None r]))) \<and>
   (del_chat_id ev = None \<and> del_peer ev = NoPeerAttribute \<longrightarrow>
      should_log_deletion h ev = Inl no_peer_attribute)"
proof (intro conjI allI impI)
  fix e
  assume "should_log_deletion h ev = Inl e"
  then show "process_deleted_message h w ev st = (Inl e, st)"
    by (simp add: process_deleted_message_def)
next
  assume "should_log_deletion h ev = Inr False"
  then show "process_deleted_message h w ev st = (Inr (), st)"
    by (simp add: process_deleted_message_def)
next
  assume a: "should_log_deletion h ev = Inr True"
  obtain g st1 where g: "apply_deletion_rate_limit h w st = (g, st1)"
    by (cases "apply_deletion_rate_limit h w st")
  from apply_deletion_rate_limit_added [OF g] obtain t r where
    t: "added st st1 = ClockNow t # (if g = Triggered \<and> has_log_sender h
                         then [SendMessage (pause_notice h w) None r] else [])"
    by blast
  obtain tr1 where tr1: "trace st1 = trace st @ tr1"
    using g by (auto simp: apply_deletion_rate_limit_def now_utc_def Let_def
                  dest!: rate_limit_at_added)
  then have a1: "added st st1 = tr1" by (rule added_eq)
  let ?l = "log_deleted_ids h w (del_chat_id ev) (deleted_ids ev) st1"
  have "grows no_gate st1 (snd ?l)"
    by (rule grows_log_deleted_ids) simp
  then obtain tr2 where tr2: "trace (snd ?l) = trace st1 @ tr2" "list_all no_gate tr2"
    by (auto simp: grows_def)
  show "\<exists>t rest. added st (snd (process_deleted_message h w ev st)) = ClockNow t # rest \<and>
                 list_all no_gate rest"
  proof (cases "allowed g")
    case True
    then have "process_deleted_message h w ev st = ?l"
      using a g by (simp add: process_deleted_message_def)
    moreover have "added st (snd ?l) = tr1 @ tr2"
      using tr1 tr2 by (simp add: added_def)
    ultimately show ?thesis
      using t a1 tr2(2) by (auto simp: no_gate_def)
  next
    case False
    then have "process_deleted_message h w ev st = (Inr (), st1)"
      using a g by (simp add: process_deleted_message_def)
    then show ?thesis using t by (auto simp: no_gate_def)
  qed
next
  assume a: "should_log_deletion h ev = Inr True"
    and r: "\<not> allowed (fst (apply_deletion_rate_limit h w st))"
  then show "process_deleted_message h w ev st = (Inr (), snd (apply_deletion_rate_limit h w st))"
    by (simp add: process_deleted_message_def split_beta)
next
  assume a: "should_log_deletion h ev = Inr True"
    and r: "\<not> allowed (fst (apply_deletion_rate_limit h w st))"
  obtain g st1 where g: "apply_deletion_rate_limit h w st = (g, st1)"
    by (cases "apply_deletion_rate_limit h w st")
  from a r g have p: "process_deleted_message h w ev st = (Inr (), st1)"
    by (simp add: process_deleted_message_def)
  from apply_deletion_rate_limit_added [OF g] p
  show "\<exists>t r. added st (snd (process_deleted_message h w ev st)) = [ClockNow t] \<or>
                added st (snd (process_deleted_message h w ev st)) =
                  [ClockNow t, SendMessage (pause_notice h w) None r]"
    by (auto split: if_splits)
next
  assume "del_chat_id ev = None \<and> del_peer ev = NoPeerAttribute"
  then show "should_log_deletion h ev = Inl no_peer_attribute"
    by (simp add: should_log_deletion_def resolve_chat_id_def)
qed

lemma example_deletion_logged: "should_log_deletion example_handler example_deletion = Inr True"
  by (simp add: should_log_deletion_def resolve_chat_id_def example_deletion_def example_handler_def)

lemma ignored_deletion_not_logged:
  "should_log_deletion example_handler ignored_deletion = Inr False"
  by (simp add: should_log_deletion_def resolve_chat_id_def ignored_deletion_def example_handler_def)

lemma paused_gate:
  "apply_deletion_rate_limit example_handler example_world paused_state =
     (StillPaused, paused_state\<lparr>trace := [ClockNow 0]\<rparr>)"
  by (simp add: apply_deletion_rate_limit_def now_utc_def rate_limit_at_def emit_def Let_def
        paused_state_def initial_state_def example_world_def)

text \<open>An event in an ignored chat does nothing, and an event without a chat id raises
  at the filter; an event in the forwarded group reads the clock once; the same event
  inside a pause reads the clock and ends.\<close>

theorem deletion_gated_once_witness:
  "should_log_deletion example_handler ignored_deletion = Inr False \<and>
   process_deleted_message example_handler example_world ignored_deletion initial_state =
     (Inr (), initial_state) \<and>
   del_chat_id unknown_chat_deletion = None \<and>
   del_peer unknown_chat_deletion = NoPeerAttribute \<and>
   process_deleted_message example_handler example_world unknown_chat_deletion initial_state =
     (Inl no_peer_attribute, initial_state) \<and>
   should_log_deletion example_handler example_deletion = Inr True \<and>
   length (filter is_gate_check (added initial_state
     (snd (process_deleted_message example_handler example_world example_deletion initial_state)))) = 1 \<and>
   \<not> allowed (fst (apply_deletion_rate_limit example_handler example_world paused_state)) \<and>
   process_deleted_message example_handler example_world example_deletion paused_state =
     (Inr (), paused_state\<lparr>trace := [ClockNow 0]\<rparr>)"
proof -
  note t1 = deletion_gated_once [of example_handler ignored_deletion example_world initial_state]
  note t2 = deletion_gated_once [of example_handler example_deletion example_world initial_state]
  note t3 = deletion_gated_once [of example_handler example_deletion example_world paused_state]
  note t4 = deletion_gated_once [of example_handler unknown_chat_deletion example_world
              initial_state]
  have u: "del_chat_id unknown_chat_deletion = None"
    "del_peer unknown_chat_deletion = NoPeerAttribute"
    by (simp_all add: unknown_chat_deletion_def)
  from t1 ignored_deletion_not_logged
  have 1: "process_deleted_message example_handler example_world ignored_deletion initial_state =
     (Inr (), initial_state)" by blast
  from t2 example_deletion_logged obtain t rest where
    "added initial_state (snd (process_deleted_message example_handler example_world
        example_deletion initial_state)) = ClockNow t # rest" "list_all no_gate rest"
    by blast
  then have 2: "length (filter is_gate_check (added initial_state
     (snd (process_deleted_message example_handler example_world example_deletion initial_state)))) = 1"
    by (simp add: list_all_iff no_gate_def)
  have 3: "\<not> allowed (fst (apply_deletion_rate_limit example_handler example_world paused_state))"
    by (simp add: paused_gate)
  with t3 example_deletion_logged
  have 4: "process_deleted_message example_handler example_world example_deletion paused_state =
     (Inr (), paused_state\<lparr>trace := [ClockNow 0]\<rparr>)"
    by (simp add: paused_gate)
  from t4 u
  have 5: "process_deleted_message example_handler example_world unknown_chat_deletion
             initial_state = (Inl no_peer_attribute, initial_state)"
    by blast
  from 1 2 3 4 5 u example_deletion_logged ignored_deletion_not_logged show ?thesis by simp
qed

text \<open>A deletion event of two messages in an ignored chat is processed without any
  consultation of the rate limiter: not exactly one.\<close>

theorem ungated_deletion_counterexample:
  "helpers_ready example_handler \<and>
   deleted_ids ignored_deletion = [11, 12] \<and>
   process example_handler example_world (MessageDeleted ignored_deletion) initial_state =
     (Inr (), initial_state) \<and>
   filter is_gate_check (added initial_state
     (snd (process example_handler example_world (MessageDeleted ignored_deletion) initial_state))) = [] \<and>
   length (filter is_gate_check (added initial_state
     (snd (process example_handler example_world (MessageDeleted ignored_deletion) initial_state)))) \<noteq> 1"
  by (simp add: process_def dispatch_def process_deleted_message_def ignored_deletion_not_logged
        example_helpers_ready [unfolded helpers_ready_def] helpers_ready_def)
     (simp add: ignored_deletion_def)

subsection \<open>The dispatcher\<close>

text \<open>
  Claim C9. \<^verbatim>\<open>process\<close> returns normally for every event, every state and every
  behaviour of the collaborators: an exception of a handler is caught, what the handler
  did before it stays done, and nothing is done when a helper is missing.
\<close>

theorem process_returns_normally:
  "fst (process h w ev st) = Inr () \<and>
   snd (process h w ev st) = (if helpers_ready h then snd (dispatch h w ev st) else st)"
  by (auto simp: process_def helpers_ready_def split: prod.splits sum.splits)

lemma failing_send_deletion:
  "fst (process_deleted_message example_handler failing_send_world example_deletion
          initial_state) = Inl (OtherException [] [])"
proof -
  have s: "\<And>tr t. log_send_message failing_send_world tr t None = Some (OtherException [] [])"
    by (simp add: failing_send_world_def example_world_def)
  have d: "\<And>tr i. db_get_message_by_id failing_send_world tr i = Inr None"
    by (simp add: failing_send_world_def example_world_def)
  have c: "\<And>tr. clock failing_send_world tr = 0"
    by (simp add: failing_send_world_def example_world_def)
  have h: "has_log_sender example_handler" "has_client example_handler"
    "deletion_rate_limit_threshold example_handler = 5"
    "deletion_rate_limit_window example_handler = 10000000"
    by (simp_all add: example_handler_def)
  have g: "apply_deletion_rate_limit example_handler failing_send_world initial_state =
     (Admitted, initial_state\<lparr>deletion_timestamps := [0], trace := [ClockNow 0]\<rparr>)"
    by (simp add: apply_deletion_rate_limit_def now_utc_def rate_limit_at_def evict.simps emit_def
          Let_def c h initial_state_def)
  have l: "\<And>st. fst (log_deleted_id example_handler failing_send_world (Some (- 1001234567890)) 11
                     st) = Inl (OtherException [] [])"
    by (simp add: log_deleted_id_def get_message_from_db_with_retry_def get_message_by_id_def
          asyncio_sleep_def deleted_mention_def mention_def send_message_def Let_def d s h
          split_beta split: sum.splits)
  have e: "deleted_ids example_deletion = [11, 12]"
    "del_chat_id example_deletion = Some (- 1001234567890)"
    by (simp_all add: example_deletion_def)
  from l [of "initial_state\<lparr>deletion_timestamps := [0], trace := [ClockNow 0]\<rparr>"]
  show ?thesis
    by (simp add: process_deleted_message_def example_deletion_logged g e split_beta
          split: sum.splits)
qed

text \<open>A deletion whose log entry cannot be sent, a deletion without a chat id, and a
  new-message event without a message: the handler raises, \<^verbatim>\<open>process\<close> returns.\<close>

theorem process_returns_normally_witness:
  "fst (dispatch example_handler failing_send_world (MessageDeleted example_deletion)
          initial_state) = Inl (OtherException [] []) \<and>
   fst (process example_handler failing_send_world (MessageDeleted example_deletion)
          initial_state) = Inr () \<and>
   dispatch example_handler example_world (MessageDeleted unknown_chat_deletion) initial_state =
     (Inl no_peer_attribute, initial_state) \<and>
   process example_handler example_world (MessageDeleted unknown_chat_deletion) initial_state =
     (Inr (), initial_state) \<and>
   dispatch example_handler example_world (NewMessage None) initial_state =
     (Inl none_has_no_id, initial_state) \<and>
   process example_handler example_world (NewMessage None) initial_state = (Inr (), initial_state)"
proof -
  note a = process_returns_normally [of example_handler failing_send_world
             "MessageDeleted example_deletion" initial_state]
  note b = process_returns_normally [of example_handler example_world "NewMessage None" initial_state]
  note c = process_returns_normally [of example_handler example_world
             "MessageDeleted unknown_chat_deletion" initial_state]
  have d: "dispatch example_handler example_world (NewMessage None) initial_state =
     (Inl none_has_no_id, initial_state)"
    by (simp add: dispatch_def process_new_message_def should_forward_def)
  have u: "dispatch example_handler example_world (MessageDeleted unknown_chat_deletion)
             initial_state = (Inl no_peer_attribute, initial_state)"
    by (simp add: dispatch_def process_deleted_message_def should_log_deletion_def
          resolve_chat_id_def unknown_chat_deletion_def)
  have f: "fst (dispatch example_handler failing_send_world (MessageDeleted example_deletion)
             initial_state) = Inl (OtherException [] [])"
    using failing_send_deletion by (simp add: dispatch_def)
  from b d example_helpers_ready
  have 1: "process example_handler example_world (NewMessage None) initial_state =
             (Inr (), initial_state)"
    by (simp add: prod_eq_iff)
  from c u example_helpers_ready
  have 2: "process example_handler example_world (MessageDeleted unknown_chat_deletion)
             initial_state = (Inr (), initial_state)"
    by (simp add: prod_eq_iff)
  from a d u f 1 2 show ?thesis by simp
qed

end
